theory Spec2Isabelle
  imports Main "HOL-Library.Word" "HOL-Library.Signed_Division" "HOL-Library.Monad_Syntax"
begin

unbundle bit_operations_syntax

section \<open>The ISO9660 reader of the CD-ROM library (src/src/filesystem.c)\<close>

text \<open>
  A shallow embedding of \<^verbatim>\<open>src/src/filesystem.c\<close> and of the parts of
  \<^verbatim>\<open>src/inc/cdrom.h\<close> it uses. Bytes are \<open>8 word\<close> and the unsigned fields of
  the disc are words of their width; a C \<open>int\<close> is an \<open>int\<close>, with the conversion
  from an unsigned field written out (\<open>sint\<close>) and the one sum of the file that can
  leave the range of \<open>int\<close> on a disc's data guarded. A function of the C file that
  reads memory returns an \<open>option\<close>: \<open>None\<close> stands for a run that has no defined
  result in C, which is a read outside a buffer, a store past the end of a fixed array,
  a null pointer that is dereferenced, or a loop that never exits. The output of
  \<^verbatim>\<open>printf\<close> is left out.
\<close>

type_synonym u8 = "8 word"
type_synonym u16 = "16 word"
type_synonym u32 = "32 word"

subsection \<open>Position codec (cdrom.h)\<close>

text \<open>
  The two macros of cdrom.h, on C \<open>int\<close> operands; C's \<open>/\<close> and \<open>%\<close> truncate
  towards zero (\<open>sdiv\<close>, \<open>smod\<close>).
  \<^verbatim>\<open>#define btoi(b) (((b) / 16 * 10) + ((b) % 16))\<close>
  \<^verbatim>\<open>#define itob(i) (((i) / 10 * 16) | ((i) % 10))\<close>
\<close>

definition btoi :: "int \<Rightarrow> int" where
  "btoi b = ((b sdiv 16) * 10) + (b smod 16)"

definition itob :: "int \<Rightarrow> int" where
  "itob i = ((i sdiv 10) * 16) OR (i smod 10)"

record CdlLOC =
  minute :: u8
  second :: u8
  sector :: u8
  track :: u8

text \<open>
  Modelled from the spec: the bodies of \<^verbatim>\<open>CdIntToPos\<close> and \<^verbatim>\<open>CdPosToInt\<close>, which
  cdrom.h only declares. Section 4.1: the first adds the lead-in constant (150 sectors)
  and then decomposes into minutes (75 * 60 sectors each), seconds (75 sectors each) and
  the remainder, each encoded as BCD; the second decodes the BCD fields, recomposes and
  subtracts the lead-in constant. The BCD steps are the macros of cdrom.h, the fields
  are the \<^verbatim>\<open>uint8_t\<close> fields of \<^verbatim>\<open>CdlLOC\<close> (a store keeps the low 8 bits), and the
  track field is left as it was.
\<close>

definition CdIntToPos :: "int \<Rightarrow> CdlLOC \<Rightarrow> CdlLOC" where
  "CdIntToPos i0 p =
     (let i = i0 + 150
      in p\<lparr>minute := word_of_int (itob (i sdiv (75 * 60))),
            second := word_of_int (itob ((i sdiv 75) smod 60)),
            sector := word_of_int (itob (i smod 75))\<rparr>)"

text \<open>
  Modelled from the spec: the body of \<^verbatim>\<open>CdPosToInt\<close> (section 4.1, see above).
\<close>

definition CdPosToInt :: "CdlLOC \<Rightarrow> int" where
  "CdPosToInt p =
     ((btoi (uint (minute p)) * (75 * 60)) + (btoi (uint (second p)) * 75)
        + btoi (uint (sector p))) - 150"

subsection \<open>Memory and C strings\<close>

text \<open>
  A buffer is the list of its bytes. A read outside it has no defined result.
  Multi-byte fields are little-endian, as the target reads them.
\<close>

definition rd8 :: "u8 list \<Rightarrow> nat \<Rightarrow> u8 option" where
  "rd8 buf i = (if i < length buf then Some (buf ! i) else None)"

definition rd16 :: "u8 list \<Rightarrow> nat \<Rightarrow> u16 option" where
  "rd16 buf i =
     (if i + 2 \<le> length buf
      then Some (word_of_nat (unat (buf ! i) + 256 * unat (buf ! (i + 1))))
      else None)"

definition rd32 :: "u8 list \<Rightarrow> nat \<Rightarrow> u32 option" where
  "rd32 buf i =
     (if i + 4 \<le> length buf
      then Some (word_of_nat (unat (buf ! i) + 256 * unat (buf ! (i + 1))
                   + 65536 * unat (buf ! (i + 2)) + 16777216 * unat (buf ! (i + 3))))
      else None)"

text \<open>The buffer of \<open>n\<close> bytes whose byte at offset \<open>i\<close> is \<open>f i\<close>.\<close>

definition tabulate :: "nat \<Rightarrow> (nat \<Rightarrow> u8) \<Rightarrow> u8 list" where
  "tabulate n f = map f [0..<n]"

text \<open>The source of a \<^verbatim>\<open>memcpy\<close>: \<open>n\<close> bytes from offset \<open>off\<close>.\<close>

definition rdn :: "u8 list \<Rightarrow> nat \<Rightarrow> nat \<Rightarrow> u8 list option" where
  "rdn buf off n = (if off + n \<le> length buf then Some (take n (drop off buf)) else None)"

text \<open>
  A \<^verbatim>\<open>char\<close> array that holds a string is modelled by the bytes stored before the
  terminator the code writes. What \<^verbatim>\<open>strcmp\<close> and \<^verbatim>\<open>printf\<close> see of it ends
  at the first NUL among them.
\<close>

definition cstr :: "u8 list \<Rightarrow> u8 list" where
  "cstr bs = takeWhile (\<lambda>b. b \<noteq> 0) bs"

text \<open>\<^verbatim>\<open>strcmp(a, b) == 0\<close>\<close>

definition streq :: "u8 list \<Rightarrow> u8 list \<Rightarrow> bool" where
  "streq a b = (cstr a = cstr b)"

text \<open>A string literal as bytes.\<close>

definition cbytes :: "string \<Rightarrow> u8 list" where
  "cbytes s = map of_char s"

text \<open>
  \<^verbatim>\<open>#define DEFAULT_PATH_SEP '\\'\<close>
  \<^verbatim>\<open>#define IS_PATH_SEP(ch) (((ch) == '/') || ((ch) == '\\'))\<close>
\<close>

definition DEFAULT_PATH_SEP :: u8 where
  "DEFAULT_PATH_SEP = 0x5C"

definition IS_PATH_SEP :: "u8 \<Rightarrow> bool" where
  "IS_PATH_SEP ch = (ch = 0x2F \<or> ch = 0x5C)"

subsection \<open>On-disc records\<close>

text \<open>
  Modelled from the spec: the record types \<^verbatim>\<open>ISO_DESCRIPTOR\<close>,
  \<^verbatim>\<open>ISO_PATHTABLE_ENTRY\<close> and \<^verbatim>\<open>ISO_DIR_ENTRY\<close> of \<^verbatim>\<open>psbw/filesystem.h\<close>, which
  filesystem.c casts its buffers to and which is not among the sources. Section 6 gives
  the standard ISO9660 on-disc layout, the magic at a fixed header offset, and the
  little-endian half of each size and location field as the one that is used. In that
  layout the descriptor has its type at byte 0, its identifier at bytes 1 to 5, the
  path table size at byte 132 and the path table sector at byte 140; a path table entry
  is 8 bytes (name length, extended length, directory sector, parent number) followed
  by the name; a directory entry is 33 bytes (entry length at 0, entry sector at 2,
  entry size at 10, flags at 25, identifier length at 32) followed by the identifier.
  Fields the code never reads are not part of the records below.
\<close>

definition sizeof_ISO_PATHTABLE_ENTRY :: nat where
  "sizeof_ISO_PATHTABLE_ENTRY = 8"

definition sizeof_ISO_DIR_ENTRY :: nat where
  "sizeof_ISO_DIR_ENTRY = 33"

record ISO_PATHTABLE_ENTRY =
  nameLength :: u8
  extLength :: u8
  dirOffs :: u32
  dirLevel :: u16

record ISO_DIR_ENTRY =
  entryLength :: u8
  entryOffs :: u32
  entrySize :: u32
  flags :: u8
  identifierLen :: u8

definition pathtable_entry_at :: "u8 list \<Rightarrow> nat \<Rightarrow> ISO_PATHTABLE_ENTRY option" where
  "pathtable_entry_at buf p =
     do {
       nl \<leftarrow> rd8 buf p;
       el \<leftarrow> rd8 buf (p + 1);
       offs \<leftarrow> rd32 buf (p + 2);
       lvl \<leftarrow> rd16 buf (p + 6);
       Some \<lparr>nameLength = nl, extLength = el, dirOffs = offs, dirLevel = lvl\<rparr>
     }"

definition dir_entry_at :: "u8 list \<Rightarrow> nat \<Rightarrow> ISO_DIR_ENTRY option" where
  "dir_entry_at buf p =
     do {
       len \<leftarrow> rd8 buf p;
       offs \<leftarrow> rd32 buf (p + 2);
       sz \<leftarrow> rd32 buf (p + 10);
       fl \<leftarrow> rd8 buf (p + 25);
       il \<leftarrow> rd8 buf (p + 32);
       Some \<lparr>entryLength = len, entryOffs = offs, entrySize = sz, flags = fl,
             identifierLen = il\<rparr>
     }"

text \<open>\<^verbatim>\<open>descriptor->header.id\<close>, \<^verbatim>\<open>descriptor->pathTableSize.lsb\<close> and
  \<^verbatim>\<open>descriptor->pathTable1Offs\<close>.\<close>

definition descriptor_id :: "u8 list \<Rightarrow> u8 list option" where
  "descriptor_id buf = rdn buf 1 5"

definition pathTableSize_lsb :: "u8 list \<Rightarrow> u32 option" where
  "pathTableSize_lsb buf = rd32 buf 132"

definition pathTable1Offs :: "u8 list \<Rightarrow> u32 option" where
  "pathTable1Offs buf = rd32 buf 140"

subsection \<open>The controller, the disc and the allocator\<close>

text \<open>
  filesystem.c drives the controller through functions that cdrom.h declares and whose
  bodies are elsewhere. What they answer is outside the control of the file, so it is a
  parameter here. The calls issued to the controller are counted, and a \<open>cd_env\<close>
  fixes
  \<^item> \<open>ctl_ack e n\<close>: whether the command issued after \<open>n\<close> earlier calls is
    acknowledged (\<^verbatim>\<open>CdControl\<close> returns 1);
  \<^item> \<open>status_after e n\<close>: the status byte \<^verbatim>\<open>CdStatus\<close> shows once \<open>n\<close> calls
    have been issued;
  \<^item> \<open>read_fault e n\<close>: whether the read started after \<open>n\<close> earlier calls fails;
  \<^item> \<open>sync_result e n\<close>: what \<^verbatim>\<open>CdSync\<close> reports once \<open>n\<close> calls have been
    issued;
  \<^item> \<open>ready_events e n\<close>: the interrupts that reach the data-ready callback, each
    with the sector it brings, once \<open>n\<close> calls have been issued;
  \<^item> \<open>getloc_result e n\<close>: the location \<^verbatim>\<open>CdlGetlocL\<close> has returned once \<open>n\<close>
    calls have been issued;
  \<^item> \<open>disc e lba\<close>: the 2048 bytes of the sector at a linear address;
  \<^item> \<open>junk e n\<close>: the bytes found in memory that \<^verbatim>\<open>malloc\<close> has just returned,
    or that a failed read has left behind, after \<open>n\<close> calls.
\<close>

datatype CdlCommand =
  CdlNop | CdlSetloc | CdlReadN | CdlPause | CdlInit | CdlSetmode | CdlGetlocL | CdlSetsession

datatype CdlIntrResult =
  CdlNoIntr | CdlDataReady | CdlComplete | CdlAcknowledge | CdlDataEnd | CdlDiskError

datatype CdlIsoError =
  CdlIsoOkay | CdlIsoSeekError | CdlIsoReadError | CdlIsoInvalidFs | CdlIsoLidOpen

text \<open>A call that reaches the controller: a command with its parameter bytes
  (\<^verbatim>\<open>CdControl\<close>, \<^verbatim>\<open>CdControlF\<close>), or \<^verbatim>\<open>CdReadRetry\<close> with its sector count.\<close>

datatype cd_call = Control CdlCommand "u8 list" | ReadRetry nat

text \<open>What a callback slot holds: nothing, \<^verbatim>\<open>_scan_callback\<close>, or a function of the
  application.\<close>

datatype CdlCB = CbNull | CbScan | CbUser nat

record cd_env =
  ctl_ack :: "nat \<Rightarrow> bool"
  status_after :: "nat \<Rightarrow> u8"
  read_fault :: "nat \<Rightarrow> bool"
  sync_result :: "nat \<Rightarrow> CdlIntrResult"
  ready_events :: "nat \<Rightarrow> (CdlIntrResult \<times> (nat \<Rightarrow> u8)) list"
  getloc_result :: "nat \<Rightarrow> CdlLOC"
  disc :: "int \<Rightarrow> nat \<Rightarrow> u8"
  junk :: "nat \<Rightarrow> nat \<Rightarrow> u8"

text \<open>\<^verbatim>\<open>typedef struct _CdlDIR_INT { uint32_t _pos; uint32_t _len; uint8_t *_dir; }\<close>;
  the buffer \<^verbatim>\<open>_dir\<close> points to belongs to the structure alone.\<close>

record CdlDIR_INT =
  d_pos :: u32
  d_len :: u32
  d_dir :: "u8 list"

text \<open>\<^verbatim>\<open>typedef struct { CdlLOC pos; int size; char name[16]; } CdlFILE\<close>\<close>

record CdlFILE =
  pos :: CdlLOC
  fsize :: int
  name :: "u8 list"

text \<open>
  The state: the file-scope variables of filesystem.c, the flag
  \<^verbatim>\<open>_cd_media_changed\<close> it shares with the driver (which sets it between calls
  of this file, not during them), the \<^verbatim>\<open>CdlDIR_INT\<close> structures
  on the heap by address (0 is the null pointer; \<open>next_dir\<close> is the address the next
  allocation returns), and what the controller holds: the calls issued so far (oldest
  first), the sector the next read starts at, the outcome of the last read, and the
  data-ready callback slot.
\<close>

record iso_state =
  cd_media_changed :: int
  cd_iso_last_dir_lba :: int
  cd_iso_descriptor_buff :: "u8 list"
  cd_iso_pathtable_buff :: "u8 list option"
  cd_iso_directory_buff :: "u8 list option"
  cd_iso_directory_len :: int
  cd_iso_error :: CdlIsoError
  ses_scanfound :: int
  ses_scancount :: int
  ses_scancomplete :: int
  ses_scanbuff :: "u8 list"
  dir_heap :: "nat \<Rightarrow> CdlDIR_INT option"
  next_dir :: nat
  cd_log :: "cd_call list"
  cd_head :: int
  cd_read_result :: int
  cd_ready_cb :: CdlCB

text \<open>
  Modelled from the spec: \<^verbatim>\<open>CdControl(cmd, param, result)\<close> and
  \<^verbatim>\<open>CdControlF(cmd, param)\<close>, which cdrom.h only declares. Section 4.2: the call
  sends the opcode and its parameters and reports success or failure. Here the call is
  recorded and the environment's answer is returned. An acknowledged \<^verbatim>\<open>CdlSetloc\<close>
  sets the seek target (cdrom.h), which is the sector the next read starts at.
\<close>

definition CdControl :: "cd_env \<Rightarrow> CdlCommand \<Rightarrow> u8 list \<Rightarrow> iso_state \<Rightarrow> bool \<times> iso_state" where
  "CdControl e cmd param s =
     (let n = length (cd_log s);
          s' = s\<lparr>cd_log := cd_log s @ [Control cmd param]\<rparr>
      in if cmd = CdlSetloc \<and> ctl_ack e n \<and> length param = 3
         then (True, s'\<lparr>cd_head := CdPosToInt \<lparr>minute = param ! 0, second = param ! 1,
                                               sector = param ! 2, track = 0\<rparr>\<rparr>)
         else (ctl_ack e n, s'))"

text \<open>The parameter of \<^verbatim>\<open>CdlSetloc\<close>: the first three fields of a \<^verbatim>\<open>CdlLOC\<close>.\<close>

definition loc_param :: "CdlLOC \<Rightarrow> u8 list" where
  "loc_param l = [minute l, second l, sector l]"

text \<open>A local \<^verbatim>\<open>CdlLOC loc\<close> before \<^verbatim>\<open>CdIntToPos\<close> fills it. Its track field
  is never read.\<close>

definition loc0 :: CdlLOC where
  "loc0 = \<lparr>minute = 0, second = 0, sector = 0, track = 0\<rparr>"

text \<open>Modelled from the spec: \<^verbatim>\<open>CdStatus()\<close>, which cdrom.h only declares. Section
  4.2: the last status byte, here the one after the calls issued so far.\<close>

definition CdStatus :: "cd_env \<Rightarrow> iso_state \<Rightarrow> u8" where
  "CdStatus e s = status_after e (length (cd_log s))"

text \<open>Modelled from the spec: \<^verbatim>\<open>CdSync(0, 0)\<close>, which cdrom.h only declares. Section
  4.2: it blocks until the command in flight completes or errors; the result is what
  the command came to.\<close>

definition CdSync :: "cd_env \<Rightarrow> iso_state \<Rightarrow> CdlIntrResult" where
  "CdSync e s = sync_result e (length (cd_log s))"

text \<open>\<^verbatim>\<open>malloc(n)\<close>: \<open>n\<close> bytes of whatever the memory held.\<close>

definition malloc_bytes :: "cd_env \<Rightarrow> iso_state \<Rightarrow> nat \<Rightarrow> u8 list" where
  "malloc_bytes e s n = tabulate n (junk e (length (cd_log s)))"

text \<open>
  Modelled from the spec: \<^verbatim>\<open>CdReadRetry(sectors, buf, CdlModeSpeed, CD_READ_ATTEMPTS)\<close>,
  which cdrom.h only declares, together with the transfer it starts, which the
  \<^verbatim>\<open>CdReadSync(0, 0)\<close> that follows every such call in filesystem.c waits for.
  Section 4.3: each arriving sector is copied to the destination at increasing offsets,
  with retries up to the bound. The result is the new contents of the
  \<open>2048 * sectors\<close> bytes at \<^verbatim>\<open>buf\<close>: the sectors of the disc from the current
  position on, or, when the read fails, whatever the attempts have left there.
\<close>

definition CdReadRetry :: "cd_env \<Rightarrow> nat \<Rightarrow> iso_state \<Rightarrow> u8 list \<times> iso_state" where
  "CdReadRetry e sectors s =
     (let n = length (cd_log s);
          s' = s\<lparr>cd_log := cd_log s @ [ReadRetry sectors]\<rparr>
      in if read_fault e n
         then (tabulate (2048 * sectors) (junk e n), s'\<lparr>cd_read_result := - 1\<rparr>)
         else (tabulate (2048 * sectors)
                 (\<lambda>i. disc e (cd_head s + int (i div 2048)) (i mod 2048)),
               s'\<lparr>cd_read_result := 0, cd_head := cd_head s + int sectors\<rparr>))"

text \<open>Modelled from the spec: \<^verbatim>\<open>CdReadSync(0, 0)\<close>, which cdrom.h only declares.
  Section 4.3: it blocks until all sectors are received or an error occurs and returns
  the count of sectors still pending, 0 on success, and \<open>-1\<close> on error.\<close>

definition CdReadSync :: "iso_state \<Rightarrow> int" where
  "CdReadSync s = cd_read_result s"

text \<open>Modelled from the spec: \<^verbatim>\<open>CdReadyCallback(func)\<close>, which cdrom.h only declares.
  Section 4.2: registering a new callback returns the previous one.\<close>

definition CdReadyCallback :: "CdlCB \<Rightarrow> iso_state \<Rightarrow> CdlCB \<times> iso_state" where
  "CdReadyCallback func s = (cd_ready_cb s, s\<lparr>cd_ready_cb := func\<rparr>)"

subsection \<open>Volume descriptor and path table cache\<close>

text \<open>
  \<^verbatim>\<open>_CdReadIsoDescriptor\<close>, lines 42 to 60: the lid check. The result is \<open>True\<close>
  when the function returns \<open>-1\<close> from here.
\<close>

definition lid_check :: "cd_env \<Rightarrow> iso_state \<Rightarrow> bool \<times> iso_state" where
  "lid_check e s =
     (if cd_media_changed s = 0 then
        (let s1 = snd (CdControl e CdlNop [] s)
         in if CdStatus e s1 AND 0x10 \<noteq> 0 then
              (let s2 = snd (CdControl e CdlNop [] s1)
               in if CdStatus e s2 AND 0x10 \<noteq> 0
                  then (True, s2\<lparr>cd_iso_error := CdlIsoLidOpen\<rparr>)
                  else (False, s2\<lparr>cd_media_changed := 1\<rparr>))
            else (False, s1))
      else (False, s))"

text \<open>
  \<^verbatim>\<open>_CdReadIsoDescriptor\<close>, lines 107 to 134: the path table is read into a new
  buffer of \<^verbatim>\<open>i = ((2047+descriptor->pathTableSize.lsb)>>11)<<11\<close> bytes. The sum is
  computed in 32 bits and stored to an \<^verbatim>\<open>int\<close>. The result of \<^verbatim>\<open>malloc\<close> is not
  checked; a size that is negative as an \<^verbatim>\<open>int\<close> cannot be served, and the read into
  the null pointer has no defined result. The answer to the \<^verbatim>\<open>CdlSetloc\<close> is ignored.
\<close>

definition read_pathtable :: "cd_env \<Rightarrow> iso_state \<Rightarrow> (int \<times> iso_state) option" where
  "read_pathtable e s =
     do {
       sz \<leftarrow> pathTableSize_lsb (cd_iso_descriptor_buff s);
       offs \<leftarrow> pathTable1Offs (cd_iso_descriptor_buff s);
       let i = sint (push_bit 11 (drop_bit 11 (2047 + sz)));
       if i < 0 then None
       else do {
         let loc = CdIntToPos (sint offs) loc0;
         let s1 = snd (CdControl e CdlSetloc (loc_param loc) s);
         let (buf, s2) = CdReadRetry e (nat (drop_bit 11 i)) s1;
         let s3 = s2\<lparr>cd_iso_pathtable_buff := Some buf\<rparr>;
         if CdReadSync s3 \<noteq> 0
         then Some (- 1, s3\<lparr>cd_iso_error := CdlIsoReadError\<rparr>)
         else Some (0, s3\<lparr>cd_iso_last_dir_lba := 0, cd_iso_error := CdlIsoOkay,
                           cd_media_changed := 0\<rparr>)
       }
     }"

text \<open>\<^verbatim>\<open>static int _CdReadIsoDescriptor(int session_offs)\<close>\<close>

definition CdReadIsoDescriptor :: "cd_env \<Rightarrow> int \<Rightarrow> iso_state \<Rightarrow> (int \<times> iso_state) option" where
  "CdReadIsoDescriptor e session_offs s0 =
     (let (lid_open, s) = lid_check e s0
      in if lid_open then Some (- 1, s)
         else if cd_media_changed s = 0 then Some (0, s)
         else
           (let loc = CdIntToPos (16 + session_offs) loc0;
                (ack, s1) = CdControl e CdlSetloc (loc_param loc) s
            in if \<not> ack then Some (- 1, s1\<lparr>cd_iso_error := CdlIsoSeekError\<rparr>)
               else
                 (let (buf, s2) = CdReadRetry e 1 s1;
                      s3 = s2\<lparr>cd_iso_descriptor_buff := buf\<rparr>
                  in if CdReadSync s3 \<noteq> 0
                     then Some (- 1, s3\<lparr>cd_iso_error := CdlIsoReadError\<rparr>)
                     else do {
                       ident \<leftarrow> descriptor_id (cd_iso_descriptor_buff s3);
                       if ident \<noteq> cbytes ''CD001''
                       then Some (- 1, s3\<lparr>cd_iso_error := CdlIsoInvalidFs\<rparr>)
                       else read_pathtable e s3
                     })))"

subsection \<open>Directory record cache\<close>

text \<open>
  \<^verbatim>\<open>static int _CdReadIsoDirectory(int lba)\<close>. The record's own length is the
  \<^verbatim>\<open>entrySize.lsb\<close> of its first entry, stored to an \<^verbatim>\<open>int\<close>. For a longer record
  the buffer is replaced by one of \<^verbatim>\<open>((2047+_cd_iso_directory_len)>>11)<<11\<close> bytes;
  the sum is an \<^verbatim>\<open>int\<close> sum and has no defined result when it overflows.
\<close>

definition CdReadIsoDirectory :: "cd_env \<Rightarrow> int \<Rightarrow> iso_state \<Rightarrow> (int \<times> iso_state) option" where
  "CdReadIsoDirectory e lba s =
     (if lba = cd_iso_last_dir_lba s then Some (0, s)
      else
        (let loc = CdIntToPos lba loc0;
             (ack, s1) = CdControl e CdlSetloc (loc_param loc) s
         in if \<not> ack then Some (- 1, s1\<lparr>cd_iso_error := CdlIsoSeekError\<rparr>)
            else
              (let (buf, s2) = CdReadRetry e 1 s1;
                   s3 = s2\<lparr>cd_iso_directory_buff := Some buf\<rparr>
               in if CdReadSync s3 \<noteq> 0
                  then Some (- 1, s3\<lparr>cd_iso_error := CdlIsoReadError\<rparr>)
                  else do {
                    sz \<leftarrow> rd32 buf 10;
                    let s4 = s3\<lparr>cd_iso_directory_len := sint sz\<rparr>;
                    if cd_iso_directory_len s4 > 2048 then
                      (let (ack2, s5) = CdControl e CdlSetloc (loc_param loc) s4
                       in if \<not> ack2 then Some (- 1, s5\<lparr>cd_iso_error := CdlIsoSeekError\<rparr>)
                          else if 2047 + cd_iso_directory_len s5 > 2147483647 then None
                          else
                            (let i = push_bit 11 (drop_bit 11 (2047 + cd_iso_directory_len s5));
                                 (buf2, s6) = CdReadRetry e (nat (drop_bit 11 i)) s5;
                                 s7 = s6\<lparr>cd_iso_directory_buff := Some buf2\<rparr>
                             in if CdReadSync s7 \<noteq> 0
                                then Some (- 1, s7\<lparr>cd_iso_error := CdlIsoReadError\<rparr>)
                                else Some (0, s7\<lparr>cd_iso_last_dir_lba := lba,
                                                  cd_iso_error := CdlIsoOkay\<rparr>)))
                    else Some (0, s4\<lparr>cd_iso_last_dir_lba := lba, cd_iso_error := CdlIsoOkay\<rparr>)
                  })))"

subsection \<open>Path table\<close>

text \<open>A pointer that may be null, as the buffer it gives access to: nothing can be
  read through a null pointer.\<close>

definition deref :: "u8 list option \<Rightarrow> u8 list" where
  "deref p = (case p of None \<Rightarrow> [] | Some buf \<Rightarrow> buf)"

text \<open>
  The loop of \<^verbatim>\<open>get_pathtable_entry\<close> (lines 311 to 341) from the offset
  \<open>tbl_pos\<close> and the count \<open>i\<close> on, and what follows it. \<open>want_tbl\<close> and
  \<open>want_name\<close> say that \<^verbatim>\<open>tbl\<close> and \<^verbatim>\<open>namebuff\<close> are not null; the result is the
  return value with what was stored through them. The callers' \<^verbatim>\<open>namebuff\<close> has 16
  bytes.
\<close>

function get_pathtable_entry_loop ::
  "u8 list \<Rightarrow> nat \<Rightarrow> int \<Rightarrow> bool \<Rightarrow> bool \<Rightarrow> nat \<Rightarrow> int
     \<Rightarrow> (int \<times> ISO_PATHTABLE_ENTRY option \<times> u8 list option) option" where
  "get_pathtable_entry_loop buf sz entry want_tbl want_name tbl_pos i =
     (if tbl_pos < sz then
        (if i = entry - 1 then
           (case (if want_name
                  then (case rd8 buf tbl_pos of
                          None \<Rightarrow> None
                        | Some nl \<Rightarrow>
                            if 15 < unat nl then None
                            else map_option Some
                                   (rdn buf (tbl_pos + sizeof_ISO_PATHTABLE_ENTRY) (unat nl)))
                  else Some None) of
              None \<Rightarrow> None
            | Some nm \<Rightarrow>
                (case (if want_tbl then map_option Some (pathtable_entry_at buf tbl_pos)
                       else Some None) of
                   None \<Rightarrow> None
                 | Some te \<Rightarrow> Some (0, te, nm)))
         else
           (case rd8 buf tbl_pos of
              None \<Rightarrow> None
            | Some nl \<Rightarrow>
                get_pathtable_entry_loop buf sz entry want_tbl want_name
                  (tbl_pos + sizeof_ISO_PATHTABLE_ENTRY + 2 * ((unat nl + 1) div 2)) (i + 1)))
      else if entry \<le> 0 then Some (i + 1, None, None)
      else Some (- 1, None, None))"
  by pat_completeness auto
termination
  by (relation "measure (\<lambda>(buf, sz, entry, want_tbl, want_name, tbl_pos, i). sz - tbl_pos)")
     (auto simp: sizeof_ISO_PATHTABLE_ENTRY_def)

text \<open>\<^verbatim>\<open>static int get_pathtable_entry(int entry, ISO_PATHTABLE_ENTRY *tbl, char *namebuff)\<close>\<close>

definition get_pathtable_entry ::
  "iso_state \<Rightarrow> int \<Rightarrow> bool \<Rightarrow> bool \<Rightarrow> (int \<times> ISO_PATHTABLE_ENTRY option \<times> u8 list option) option" where
  "get_pathtable_entry s entry want_tbl want_name =
     do {
       sz \<leftarrow> pathTableSize_lsb (cd_iso_descriptor_buff s);
       get_pathtable_entry_loop (deref (cd_iso_pathtable_buff s)) (unat sz) entry
         want_tbl want_name 0 0
     }"

text \<open>
  The \<^verbatim>\<open>do ... while\<close> of \<^verbatim>\<open>resolve_pathtable_path\<close>. \<open>acc\<close> holds the bytes
  from \<^verbatim>\<open>rbuff\<close> up to the terminator at the end of the callers' 128-byte
  \<^verbatim>\<open>tpath_rbuff\<close>, so at most 127 bytes fit. The inner \<open>None\<close> is the null pointer.
\<close>

function resolve_pathtable_path_loop :: "iso_state \<Rightarrow> int \<Rightarrow> u8 list \<Rightarrow> u8 list option option" where
  "resolve_pathtable_path_loop s entry acc =
     (case get_pathtable_entry s entry True True of
        None \<Rightarrow> None
      | Some (r, te, nm) \<Rightarrow>
          if r \<noteq> 0 then Some None
          else
            (case (te, nm) of
               (Some tbl_entry, Some namebuff) \<Rightarrow>
                 (let acc' = DEFAULT_PATH_SEP # take (unat (nameLength tbl_entry)) namebuff @ acc
                  in if 127 < length acc' then None
                     else if 1 < uint (dirLevel tbl_entry)
                          then resolve_pathtable_path_loop s (uint (dirLevel tbl_entry)) acc'
                          else Some (Some acc'))
             | _ \<Rightarrow> None))"
  by pat_completeness auto
termination
  by (relation "measure (\<lambda>(s, entry, acc). 128 - length acc)") auto

text \<open>\<^verbatim>\<open>static char* resolve_pathtable_path(int entry, char *rbuff)\<close>, called with
  \<^verbatim>\<open>tpath_rbuff+127\<close>.\<close>

definition resolve_pathtable_path :: "iso_state \<Rightarrow> int \<Rightarrow> u8 list option option" where
  "resolve_pathtable_path s entry = resolve_pathtable_path_loop s entry []"

text \<open>
  The search of the path table in \<^verbatim>\<open>CdSearchFile\<close> (lines 516 to 530) and in
  \<^verbatim>\<open>CdOpenDir\<close> (lines 599 to 613), from \<open>i\<close> on: the value of \<^verbatim>\<open>found_dir\<close>.
\<close>

function search_pathtable :: "iso_state \<Rightarrow> u8 list \<Rightarrow> int \<Rightarrow> int \<Rightarrow> int option" where
  "search_pathtable s path num_dirs i =
     (if i < num_dirs then
        (case resolve_pathtable_path s i of
           None \<Rightarrow> None
         | Some None \<Rightarrow> search_pathtable s path num_dirs (i + 1)
         | Some (Some rbuff) \<Rightarrow>
             if streq path rbuff then Some i
             else search_pathtable s path num_dirs (i + 1))
      else Some 0)"
  by pat_completeness auto
termination
  by (relation "measure (\<lambda>(s, path, num_dirs, i). nat (num_dirs - i))") auto

subsection \<open>File lookup\<close>

text \<open>
  The loop shared by \<^verbatim>\<open>get_pathname\<close> and \<^verbatim>\<open>get_filename\<close>:
  \<^verbatim>\<open>for (const char *i = filename; *i; i++) { if (IS_PATH_SEP(*i)) c = i; }\<close>.
  \<open>c\<close> is the offset of the last separator seen, if any.
\<close>

fun last_sep :: "u8 list \<Rightarrow> nat \<Rightarrow> nat option \<Rightarrow> nat option" where
  "last_sep [] i c = c"
| "last_sep (ch # rest) i c = last_sep rest (i + 1) (if IS_PATH_SEP ch then Some i else c)"

text \<open>
  \<^verbatim>\<open>static char* get_pathname(char *path, const char *filename)\<close>: the pointer
  returned (null, or \<^verbatim>\<open>path\<close>) and the string left in \<^verbatim>\<open>path\<close>, which is the
  128-byte \<^verbatim>\<open>search_path\<close> of the caller.
\<close>

definition get_pathname :: "u8 list \<Rightarrow> (bool \<times> u8 list) option" where
  "get_pathname filename =
     (case last_sep filename 0 None of
        None \<Rightarrow> Some (False, [DEFAULT_PATH_SEP])
      | Some c \<Rightarrow>
          if c = 0 then Some (False, [DEFAULT_PATH_SEP])
          else if 127 < c then None
          else Some (True, take c filename))"

text \<open>\<^verbatim>\<open>static char* get_filename(char *name, const char *filename)\<close>: the string
  left in \<^verbatim>\<open>name\<close>, which is the 16-byte \<^verbatim>\<open>fp->name\<close> of the caller.\<close>

definition get_filename :: "u8 list \<Rightarrow> u8 list option" where
  "get_filename filename =
     (let src = (case last_sep filename 0 None of
                   None \<Rightarrow> filename
                 | Some c \<Rightarrow> if c = 0 then drop 1 filename else drop (c + 1) filename)
      in if 15 < length src then None else Some src)"

text \<open>
  The loop of \<^verbatim>\<open>find_dir_entry\<close> from \<open>dir_pos\<close> on, over the cached record
  \<open>buf\<close> of declared length \<open>len\<close>: the return value and what is stored to
  \<^verbatim>\<open>*dirent\<close>. \<^verbatim>\<open>namebuff\<close> has 16 bytes. The loop need not end: an entry of
  length 0 at a sector boundary leaves \<^verbatim>\<open>dir_pos\<close> where it is.
\<close>

partial_function (option) find_dir_entry_loop ::
  "u8 list \<Rightarrow> int \<Rightarrow> u8 list \<Rightarrow> nat \<Rightarrow> (int \<times> ISO_DIR_ENTRY option) option" where
  "find_dir_entry_loop buf len nm dir_pos =
     (if int dir_pos < len then
        do {
          fl \<leftarrow> rd8 buf (dir_pos + 25);
          hit \<leftarrow> (if fl AND 0x2 = 0 then
                    do {
                      il \<leftarrow> rd8 buf (dir_pos + 32);
                      if 15 < unat il then None
                      else do {
                        namebuff \<leftarrow> rdn buf (dir_pos + sizeof_ISO_DIR_ENTRY) (unat il);
                        Some (streq namebuff nm)
                      }
                    }
                  else Some False);
          if hit then
            do {
              dir_entry \<leftarrow> dir_entry_at buf dir_pos;
              Some (0, Some dir_entry)
            }
          else
            do {
              el \<leftarrow> rd8 buf dir_pos;
              let p = dir_pos + unat el;
              b \<leftarrow> rd8 buf p;
              find_dir_entry_loop buf len nm
                (if b = 0 then push_bit 11 (drop_bit 11 (p + 2047)) else p)
            }
        }
      else Some (- 1, None))"

text \<open>\<^verbatim>\<open>static int find_dir_entry(const char *name, ISO_DIR_ENTRY *dirent)\<close>\<close>

definition find_dir_entry :: "iso_state \<Rightarrow> u8 list \<Rightarrow> (int \<times> ISO_DIR_ENTRY option) option" where
  "find_dir_entry s nm =
     find_dir_entry_loop (deref (cd_iso_directory_buff s)) (cd_iso_directory_len s) nm 0"

text \<open>
  \<^verbatim>\<open>CdlFILE *CdSearchFile(CdlFILE *fp, const char *filename)\<close>: whether the pointer
  returned is \<^verbatim>\<open>fp\<close> rather than null, and the structure \<^verbatim>\<open>fp\<close> points to
  afterwards. \<^verbatim>\<open>filename\<close> is a C string and ends at its first NUL. The block under
  \<^verbatim>\<open>#ifndef NDEBUG\<close> resolves the last entry of the path table, to print it. The
  version suffix is appended with \<^verbatim>\<open>strcat\<close> into the 16 bytes of \<^verbatim>\<open>fp->name\<close>.
\<close>

definition CdSearchFile ::
  "cd_env \<Rightarrow> CdlFILE \<Rightarrow> u8 list \<Rightarrow> iso_state \<Rightarrow> (bool \<times> CdlFILE \<times> iso_state) option" where
  "CdSearchFile e fp filename0 s0 =
     do {
       let filename = cstr filename0;
       (r, s1) \<leftarrow> CdReadIsoDescriptor e 0 s0;
       if r \<noteq> 0 then Some (False, fp, s1)
       else do {
         (num_dirs, _, _) \<leftarrow> get_pathtable_entry s1 0 False False;
         _ \<leftarrow> resolve_pathtable_path s1 (num_dirs - 1);
         (_, search_path) \<leftarrow> get_pathname filename;
         found_dir \<leftarrow> search_pathtable s1 search_path num_dirs 1;
         if found_dir = 0 then Some (False, fp, s1)
         else do {
           (_, te, _) \<leftarrow> get_pathtable_entry s1 found_dir True False;
           tbl_entry \<leftarrow> te;
           (_, s2) \<leftarrow> CdReadIsoDirectory e (sint (dirOffs tbl_entry)) s1;
           nm \<leftarrow> get_filename filename;
           nm' \<leftarrow> (if 0x3B \<in> set nm then Some nm
                    else if 15 < length nm + 2 then None
                    else Some (nm @ cbytes '';1''));
           let fp1 = fp\<lparr>name := nm'\<rparr>;
           (r', de) \<leftarrow> find_dir_entry s2 nm';
           if r' \<noteq> 0 then Some (False, fp1, s2)
           else do {
             dir_entry \<leftarrow> de;
             Some (True,
                   fp1\<lparr>pos := CdIntToPos (sint (entryOffs dir_entry)) (pos fp1),
                       fsize := sint (entrySize dir_entry)\<rparr>,
                   s2)
           }
         }
       }
     }"

subsection \<open>Directory iteration\<close>

text \<open>Lines 645 to 649 of \<^verbatim>\<open>CdOpenDir\<close>, once:
  \<^verbatim>\<open>dir_entry = (ISO_DIR_ENTRY*)(dir->_dir+dir->_pos); dir->_pos += dir_entry->entryLength;\<close>\<close>

definition skip_entry :: "CdlDIR_INT \<Rightarrow> CdlDIR_INT option" where
  "skip_entry d =
     do {
       el \<leftarrow> rd8 (d_dir d) (unat (d_pos d));
       Some (d\<lparr>d_pos := d_pos d + ucast el\<rparr>)
     }"

text \<open>
  \<^verbatim>\<open>CdlDIR *CdOpenDir(const char* path)\<close>: the address returned (0 for null). The
  new structure copies \<^verbatim>\<open>_cd_iso_directory_len\<close> bytes of the cached record; the
  length is an \<^verbatim>\<open>int\<close> and a negative one cannot be allocated or copied.
\<close>

definition CdOpenDir :: "cd_env \<Rightarrow> u8 list \<Rightarrow> iso_state \<Rightarrow> (nat \<times> iso_state) option" where
  "CdOpenDir e path0 s0 =
     do {
       let path = cstr path0;
       (r, s1) \<leftarrow> CdReadIsoDescriptor e 0 s0;
       if r \<noteq> 0 then Some (0, s1)
       else do {
         (num_dirs, _, _) \<leftarrow> get_pathtable_entry s1 0 False False;
         found_dir \<leftarrow> search_pathtable s1 path num_dirs 1;
         if found_dir = 0 then Some (0, s1)
         else do {
           (_, te, _) \<leftarrow> get_pathtable_entry s1 found_dir True False;
           tbl_entry \<leftarrow> te;
           (_, s2) \<leftarrow> CdReadIsoDirectory e (sint (dirOffs tbl_entry)) s1;
           if cd_iso_directory_len s2 < 0 then None
           else do {
             copy \<leftarrow> rdn (deref (cd_iso_directory_buff s2)) 0 (nat (cd_iso_directory_len s2));
             let dir = \<lparr>d_pos = 0, d_len = word_of_int (cd_iso_directory_len s2), d_dir = copy\<rparr>;
             dir' \<leftarrow> (if found_dir = 1 then do { d1 \<leftarrow> skip_entry dir; skip_entry d1 }
                      else Some dir);
             let h = Suc (next_dir s2);
             Some (h, s2\<lparr>dir_heap := (dir_heap s2)(h := Some dir'), next_dir := h\<rparr>)
           }
         }
       }
     }"

text \<open>The structure a \<^verbatim>\<open>CdlDIR\<close> pointer gives access to. Nothing can be read
  through the null pointer or through an address that holds no structure.\<close>

definition dir_at :: "iso_state \<Rightarrow> nat \<Rightarrow> CdlDIR_INT option" where
  "dir_at s dir = (if dir = 0 then None else dir_heap s dir)"

text \<open>
  \<^verbatim>\<open>int CdReadDir(CdlDIR *dir, CdlFILE* file)\<close>: the return value and the structure
  \<^verbatim>\<open>file\<close> points to afterwards. \<^verbatim>\<open>_pos\<close> is unsigned, so the first comparison
  converts \<^verbatim>\<open>_cd_iso_directory_len\<close> to unsigned, and sums with \<^verbatim>\<open>_pos\<close> are
  sums of 32 bits. \<^verbatim>\<open>file->name\<close> has 16 bytes.
\<close>

definition CdReadDir ::
  "nat \<Rightarrow> CdlFILE \<Rightarrow> iso_state \<Rightarrow> (int \<times> CdlFILE \<times> iso_state) option" where
  "CdReadDir dir file s =
     do {
       d_dir0 \<leftarrow> dir_at s dir;
       if (word_of_int (cd_iso_directory_len s) :: u32) \<le> d_pos d_dir0 then Some (0, file, s)
       else do {
         b \<leftarrow> rd8 (d_dir d_dir0) (unat (d_pos d_dir0));
         if b = 0 then Some (0, file, s)
         else do {
           c \<leftarrow> rd8 (d_dir d_dir0) (unat (d_pos d_dir0 + of_nat sizeof_ISO_DIR_ENTRY));
           nm \<leftarrow> (if c = 0 then Some (cbytes ''.'')
                   else if c = 1 then Some (cbytes ''..'')
                   else do {
                     il \<leftarrow> rd8 (d_dir d_dir0) (unat (d_pos d_dir0) + 32);
                     if 15 < unat il then None
                     else rdn (d_dir d_dir0)
                            (unat (d_pos d_dir0) + sizeof_ISO_DIR_ENTRY) (unat il)
                   });
           offs \<leftarrow> rd32 (d_dir d_dir0) (unat (d_pos d_dir0) + 2);
           sz \<leftarrow> rd32 (d_dir d_dir0) (unat (d_pos d_dir0) + 10);
           el \<leftarrow> rd8 (d_dir d_dir0) (unat (d_pos d_dir0));
           let file' = file\<lparr>name := nm, pos := CdIntToPos (sint offs) (pos file),
                            fsize := sint sz\<rparr>;
           let p = d_pos d_dir0 + ucast el;
           b' \<leftarrow> rd8 (d_dir d_dir0) (unat p);
           let p' = (if b' = 0 then push_bit 11 (drop_bit 11 (p + 2047)) else p);
           Some (1, file', s\<lparr>dir_heap := (dir_heap s)(dir := Some (d_dir0\<lparr>d_pos := p'\<rparr>))\<rparr>)
         }
       }
     }"

text \<open>
  \<^verbatim>\<open>void CdCloseDir(CdlDIR *dir)\<close>. Freeing an address that holds no structure has
  no defined result.
\<close>

definition CdCloseDir :: "nat \<Rightarrow> iso_state \<Rightarrow> iso_state option" where
  "CdCloseDir dir s =
     (if dir = 0 then Some s
      else (case dir_at s dir of
              None \<Rightarrow> None
            | Some d_dir0 \<Rightarrow> Some (s\<lparr>dir_heap := (dir_heap s)(dir := None)\<rparr>)))"

text \<open>\<^verbatim>\<open>CdlIsoError CdIsoError()\<close>\<close>

definition CdIsoError :: "iso_state \<Rightarrow> CdlIsoError" where
  "CdIsoError s = cd_iso_error s"

subsection \<open>Session loader\<close>

text \<open>
  \<^verbatim>\<open>static void _scan_callback(CdlIntrResult status, unsigned char *result)\<close>, run
  for one interrupt. The interrupt comes with the sector that \<^verbatim>\<open>CdGetSector\<close>
  copies (512 words) to the buffer \<^verbatim>\<open>_ses_scanbuff\<close> points to.
\<close>

definition scan_callback :: "cd_env \<Rightarrow> CdlIntrResult \<times> (nat \<Rightarrow> u8) \<Rightarrow> iso_state \<Rightarrow> iso_state" where
  "scan_callback e ev s =
     (let status = fst ev
      in if status = CdlDataReady then
           (let s1 = s\<lparr>ses_scanbuff := tabulate 2048 (snd ev)\<rparr>
            in if rd8 (ses_scanbuff s1) 0 = Some 0x1
                  \<and> rdn (ses_scanbuff s1) 1 5 = Some (cbytes ''CD001'')
               then (snd (CdControl e CdlPause [] s1))\<lparr>ses_scancomplete := 1, ses_scanfound := 1\<rparr>
               else
                 (let s2 = s1\<lparr>ses_scancount := ses_scancount s1 + 1\<rparr>
                  in if 512 \<le> ses_scancount s2
                     then (snd (CdControl e CdlPause [] s2))\<lparr>ses_scancomplete := 1\<rparr>
                     else s2))
         else if status = CdlDiskError
              then (snd (CdControl e CdlPause [] s))\<lparr>ses_scancomplete := 1\<rparr>
              else s)"

text \<open>
  \<^verbatim>\<open>while(!_ses_scancomplete);\<close> while the interrupts \<open>evs\<close> arrive, each running
  the callback. When no interrupt is left and the flag is still clear, the loop spins
  for ever.
\<close>

fun scan_wait :: "cd_env \<Rightarrow> (CdlIntrResult \<times> (nat \<Rightarrow> u8)) list \<Rightarrow> iso_state \<Rightarrow> iso_state option" where
  "scan_wait e [] s = (if ses_scancomplete s \<noteq> 0 then Some s else None)"
| "scan_wait e (ev # evs) s =
     (if ses_scancomplete s \<noteq> 0 then Some s else scan_wait e evs (scan_callback e ev s))"

text \<open>\<^verbatim>\<open>do { VSync(2); CdControl(CdlNop, 0, 0); } while(CdStatus()&0xE0);\<close>\<close>

partial_function (option) wait_stopped :: "cd_env \<Rightarrow> iso_state \<Rightarrow> iso_state option" where
  "wait_stopped e s =
     (let s1 = snd (CdControl e CdlNop [] s)
      in if CdStatus e s1 AND 0xE0 \<noteq> 0 then wait_stopped e s1 else Some s1)"

text \<open>
  \<^verbatim>\<open>int CdLoadSession(int session)\<close>. \<^verbatim>\<open>scanbuff\<close> is a local array that is not
  initialised. The file-scope \<^verbatim>\<open>_ready_oldcb\<close> is never assigned, so the first
  restore installs the null callback; the second installs the saved one.
  \<^verbatim>\<open>CdlModeSpeed\<close> is \<open>1 << 7\<close>.
\<close>

definition CdLoadSession :: "cd_env \<Rightarrow> int \<Rightarrow> iso_state \<Rightarrow> (int \<times> iso_state) option" where
  "CdLoadSession e session s0 =
     (let s1 = snd (CdControl e CdlSetsession [word_of_int session] s0)
      in if CdSync e s1 = CdlDiskError then
           (let s2 = snd (CdControl e CdlNop [] s1);
                s3 = snd (CdControl e CdlInit [] s2)
            in Some (- 1, s3))
         else
           (let (ready_oldcb, s2) = CdReadyCallback CbScan s1;
                s3 = s2\<lparr>ses_scanfound := 0, ses_scancount := 0, ses_scancomplete := 0,
                        ses_scanbuff := malloc_bytes e s2 2048\<rparr>;
                s4 = snd (CdControl e CdlSetmode [0x80] s3);
                s5 = snd (CdControl e CdlReadN [] s4)
            in do {
                 s6 \<leftarrow> scan_wait e (ready_events e (length (cd_log s5))) s5;
                 let s7 = snd (CdReadyCallback CbNull s6);
                 if ses_scanfound s7 = 0 then
                   Some (- 1, snd (CdReadyCallback ready_oldcb
                                     (s7\<lparr>cd_iso_error := CdlIsoInvalidFs\<rparr>)))
                 else do {
                   let s8 = snd (CdReadyCallback ready_oldcb s7);
                   s9 \<leftarrow> wait_stopped e s8;
                   let s10 = snd (CdControl e CdlGetlocL [] s9);
                   let i = CdPosToInt (getloc_result e (length (cd_log s10))) - 17;
                   (r, s11) \<leftarrow> CdReadIsoDescriptor e i (s10\<lparr>cd_media_changed := 1\<rparr>);
                   if r \<noteq> 0 then Some (- 1, s11) else Some (0, s11)
                 }
               }))"

section \<open>Discs and drives to run the code on\<close>

subsection \<open>Building disc images\<close>

text \<open>The four bytes of a 32-bit field, low byte first, and the two of a 16-bit
  field.\<close>

definition le32 :: "u32 \<Rightarrow> u8 list" where
  "le32 w = [ucast w, ucast (drop_bit 8 w), ucast (drop_bit 16 w), ucast (drop_bit 24 w)]"

definition le16 :: "u16 \<Rightarrow> u8 list" where
  "le16 w = [ucast w, ucast (drop_bit 8 w)]"

text \<open>
  A path table record for a directory with the given name, sector and parent number:
  the 8-byte head, the name, and a padding byte after a name of odd length. A path
  table is its records one after the other.
\<close>

definition pathtable_record :: "u8 list \<times> u32 \<times> u16 \<Rightarrow> u8 list" where
  "pathtable_record r =
     [of_nat (length (fst r)), 0] @ le32 (fst (snd r)) @ le16 (snd (snd r)) @ fst r
       @ (if even (length (fst r)) then [] else [0])"

definition pathtable_bytes :: "(u8 list \<times> u32 \<times> u16) list \<Rightarrow> u8 list" where
  "pathtable_bytes es = concat (map pathtable_record es)"

text \<open>
  A directory entry for the given sector, size, flags and identifier: the 33-byte
  head (both byte orders of sector and size, seven bytes of date, the flags, unit size,
  gap size, volume sequence number, identifier length), the identifier, and a padding
  byte after an identifier of even length.
\<close>

definition dir_record :: "u32 \<Rightarrow> u32 \<Rightarrow> u8 \<Rightarrow> u8 list \<Rightarrow> u8 list" where
  "dir_record offs sz fl ident =
     [of_nat (33 + length ident + (if even (length ident) then 1 else 0)), 0]
       @ le32 offs @ rev (le32 offs) @ le32 sz @ rev (le32 sz)
       @ [0, 0, 0, 0, 0, 0, 0] @ [fl, 0, 0, 1, 0, 0, 1, of_nat (length ident)]
       @ ident @ (if even (length ident) then [0] else [])"

text \<open>A sector image: the bytes \<open>bs\<close> at offset \<open>off\<close> over the image \<open>f\<close>.\<close>

definition put :: "nat \<Rightarrow> u8 list \<Rightarrow> (nat \<Rightarrow> u8) \<Rightarrow> nat \<Rightarrow> u8" where
  "put off bs f i = (if off \<le> i \<and> i < off + length bs then bs ! (i - off) else f i)"

definition blank :: "nat \<Rightarrow> u8" where
  "blank i = 0"

subsection \<open>A disc with one directory\<close>

text \<open>
  The volume descriptor is at sector 16 and the path table at sector 18. The path
  table has the root (sector 22) and the one directory DATA (sector 20). The root
  record is two sectors long: its first sector lists DATA, its second the file
  README.TXT;1. The record of DATA lists the file LEVEL1.BIN;1, at sector 25 and 4096
  bytes long.
\<close>

definition demo_entries :: "(u8 list \<times> u32 \<times> u16) list" where
  "demo_entries = [([0], 22, 1), (cbytes ''DATA'', 20, 1)]"

definition demo_descriptor :: "nat \<Rightarrow> u8" where
  "demo_descriptor =
     put 0 ([1] @ cbytes ''CD001'' @ [1])
       (put 132 (le32 (of_nat (length (pathtable_bytes demo_entries)))) (put 140 (le32 18) blank))"

definition demo_pathtable :: "nat \<Rightarrow> u8" where
  "demo_pathtable = put 0 (pathtable_bytes demo_entries) blank"

definition demo_root :: "nat \<Rightarrow> u8" where
  "demo_root =
     put 0 (dir_record 22 4096 2 [0] @ dir_record 22 4096 2 [1]
              @ dir_record 20 2048 2 (cbytes ''DATA'')) blank"

definition demo_root2 :: "nat \<Rightarrow> u8" where
  "demo_root2 = put 0 (dir_record 40 300 0 (cbytes ''README.TXT;1'')) blank"

definition demo_data :: "nat \<Rightarrow> u8" where
  "demo_data =
     put 0 (dir_record 20 2048 2 [0] @ dir_record 22 4096 2 [1]
              @ dir_record 25 4096 0 (cbytes ''LEVEL1.BIN;1'')) blank"

definition demo_disc :: "int \<Rightarrow> nat \<Rightarrow> u8" where
  "demo_disc lba =
     (if lba = 16 then demo_descriptor
      else if lba = 18 then demo_pathtable
      else if lba = 20 then demo_data
      else if lba = 22 then demo_root
      else if lba = 23 then demo_root2
      else blank)"

text \<open>A drive with the lid closed that acknowledges every command and completes
  every read.\<close>

definition always :: "bool \<Rightarrow> nat \<Rightarrow> bool" where
  "always b n = b"

definition steady_status :: "u8 \<Rightarrow> nat \<Rightarrow> u8" where
  "steady_status b n = b"

definition no_junk :: "nat \<Rightarrow> nat \<Rightarrow> u8" where
  "no_junk n i = 0"

definition sync_complete :: "nat \<Rightarrow> CdlIntrResult" where
  "sync_complete n = CdlComplete"

definition no_events :: "nat \<Rightarrow> (CdlIntrResult \<times> (nat \<Rightarrow> u8)) list" where
  "no_events n = []"

definition getloc_zero :: "nat \<Rightarrow> CdlLOC" where
  "getloc_zero n = loc0"

definition demo_env :: cd_env where
  "demo_env =
     \<lparr>ctl_ack = always True, status_after = steady_status 0x02, read_fault = always False,
      sync_result = sync_complete, ready_events = no_events, getloc_result = getloc_zero,
      disc = demo_disc, junk = no_junk\<rparr>"

text \<open>The state at start-up, with the media-changed flag set: nothing is cached.\<close>

definition no_dirs :: "nat \<Rightarrow> CdlDIR_INT option" where
  "no_dirs a = None"

definition boot :: iso_state where
  "boot =
     \<lparr>cd_media_changed = 1, cd_iso_last_dir_lba = 0,
      cd_iso_descriptor_buff = tabulate 2048 blank,
      cd_iso_pathtable_buff = None, cd_iso_directory_buff = None, cd_iso_directory_len = 0,
      cd_iso_error = CdlIsoOkay, ses_scanfound = 0, ses_scancount = 0, ses_scancomplete = 0,
      ses_scanbuff = [], dir_heap = no_dirs, next_dir = 0, cd_log = [], cd_head = 0,
      cd_read_result = 0, cd_ready_cb = CbNull\<rparr>"

text \<open>The state once the volume descriptor and the path table of the disc are cached,
  and the state once the record of DATA is cached as well.\<close>

definition mounted :: iso_state where
  "mounted =
     boot\<lparr>cd_media_changed := 0,
          cd_iso_descriptor_buff := tabulate 2048 demo_descriptor,
          cd_iso_pathtable_buff := Some (tabulate 2048 demo_pathtable),
          cd_log := [Control CdlSetloc [0x00, 0x02, 0x16], ReadRetry 1,
                     Control CdlSetloc [0x00, 0x02, 0x18], ReadRetry 1],
          cd_head := 19\<rparr>"

definition data_cached :: iso_state where
  "data_cached =
     mounted\<lparr>cd_iso_last_dir_lba := 20,
             cd_iso_directory_buff := Some (tabulate 2048 demo_data),
             cd_iso_directory_len := 2048,
             cd_log := cd_log mounted @ [Control CdlNop [], Control CdlSetloc [0x00, 0x02, 0x20],
                                         ReadRetry 1],
             cd_head := 21\<rparr>"

text \<open>A \<^verbatim>\<open>CdlFILE\<close> of the caller before the call.\<close>

definition fp0 :: CdlFILE where
  "fp0 = \<lparr>pos = loc0, fsize = 0, name = []\<rparr>"

text \<open>The path of that file with backslashes, and the path with the separators the
  documentation of \<^verbatim>\<open>CdSearchFile\<close> allows as well.\<close>

definition level1_path :: "u8 list" where
  "level1_path = [0x5C] @ cbytes ''DATA'' @ [0x5C] @ cbytes ''LEVEL1.BIN''"

definition level1_path_slash :: "u8 list" where
  "level1_path_slash = cbytes ''DATA/LEVEL1.BIN''"

text \<open>A state has the descriptor and the path table of the disc cached.\<close>

definition demo_tables :: "iso_state \<Rightarrow> bool" where
  "demo_tables s =
     (cd_iso_descriptor_buff s = tabulate 2048 demo_descriptor
      \<and> cd_iso_pathtable_buff s = Some (tabulate 2048 demo_pathtable))"

text \<open>The two sectors of the root record, as one buffer holds them.\<close>

definition root_image :: "nat \<Rightarrow> u8" where
  "root_image i = (if i < 2048 then demo_root i else demo_root2 (i - 2048))"

text \<open>
  Two programs on the mounted disc. Both open the root directory and read its first
  entry; the second then looks up a file of another directory; both read the next
  entry of the root directory and return what that call returned and stored.
\<close>

definition list_root :: "(int \<times> CdlFILE) option" where
  "list_root =
     do {
       (dir, s1) \<leftarrow> CdOpenDir demo_env [DEFAULT_PATH_SEP] mounted;
       (r1, f1, s2) \<leftarrow> CdReadDir dir fp0 s1;
       (r2, f2, s3) \<leftarrow> CdReadDir dir f1 s2;
       Some (r2, f2)
     }"

definition list_root_lookup :: "(int \<times> CdlFILE) option" where
  "list_root_lookup =
     do {
       (dir, s1) \<leftarrow> CdOpenDir demo_env [DEFAULT_PATH_SEP] mounted;
       (r1, f1, s2) \<leftarrow> CdReadDir dir fp0 s1;
       (found, fp, s3) \<leftarrow> CdSearchFile demo_env fp0 level1_path s2;
       (r2, f2, s4) \<leftarrow> CdReadDir dir f1 s3;
       Some (r2, f2)
     }"

subsection \<open>Drives that fail\<close>

text \<open>A drive that refuses every command, and the state after it has refused the seek
  to the root record while the record of DATA was cached.\<close>

definition seek_refused_env :: cd_env where
  "seek_refused_env = demo_env\<lparr>ctl_ack := always False\<rparr>"

definition seek_refused :: iso_state where
  "seek_refused =
     data_cached\<lparr>cd_log := cd_log data_cached @ [Control CdlSetloc [0x00, 0x02, 0x22]],
                 cd_iso_error := CdlIsoSeekError\<rparr>"

text \<open>A drive on which every read fails, and the state after the read of the root
  record has failed while the record of DATA was cached.\<close>

definition read_fails_env :: cd_env where
  "read_fails_env = demo_env\<lparr>read_fault := always True\<rparr>"

definition read_failed :: iso_state where
  "read_failed =
     data_cached\<lparr>cd_log := cd_log data_cached
                             @ [Control CdlSetloc [0x00, 0x02, 0x22], ReadRetry 1],
                 cd_head := 22, cd_read_result := - 1,
                 cd_iso_directory_buff := Some (tabulate 2048 (no_junk 8)),
                 cd_iso_error := CdlIsoReadError\<rparr>"

text \<open>A drive whose lid is open: the shell-open bit stays set and every read fails.\<close>

definition lid_open_env :: cd_env where
  "lid_open_env = demo_env\<lparr>status_after := steady_status 0x12, read_fault := always True\<rparr>"

text \<open>A drive that delivers 512 blank sectors to the data-ready callback.\<close>

definition blank_sectors :: "nat \<Rightarrow> (CdlIntrResult \<times> (nat \<Rightarrow> u8)) list" where
  "blank_sectors n = replicate 512 (CdlDataReady, blank)"

definition blank_env :: cd_env where
  "blank_env = demo_env\<lparr>ready_events := blank_sectors\<rparr>"

subsection \<open>A directory record with an empty second sector\<close>

text \<open>The record of DATA followed by a blank sector, and the state in which a record
  of declared length 4096 is cached and the structure at address 1 iterates over that
  buffer from offset \<open>p\<close>.\<close>

definition padded_data :: "nat \<Rightarrow> u8" where
  "padded_data i = (if i < 2048 then demo_data i else 0)"

definition listing_dirs :: "u32 \<Rightarrow> nat \<Rightarrow> CdlDIR_INT option" where
  "listing_dirs p a =
     (if a = 1 then Some \<lparr>d_pos = p, d_len = 4096, d_dir = tabulate 4096 padded_data\<rparr>
      else None)"

definition listing :: "u32 \<Rightarrow> iso_state" where
  "listing p = mounted\<lparr>cd_iso_directory_len := 4096, dir_heap := listing_dirs p, next_dir := 1\<rparr>"

section \<open>What the claims speak about\<close>

text \<open>The caches: the volume descriptor, the path table, and the directory record with
  its length and its marker.\<close>

definition caches :: "iso_state \<Rightarrow> u8 list \<times> u8 list option \<times> u8 list option \<times> int \<times> int" where
  "caches s =
     (cd_iso_descriptor_buff s, cd_iso_pathtable_buff s, cd_iso_directory_buff s,
      cd_iso_directory_len s, cd_iso_last_dir_lba s)"

text \<open>An interrupt that brings a sector without the volume descriptor magic: what
  \<^verbatim>\<open>_scan_callback\<close> tests at lines 769 and 771.\<close>

definition no_magic :: "CdlIntrResult \<times> (nat \<Rightarrow> u8) \<Rightarrow> bool" where
  "no_magic ev =
     (fst ev = CdlDataReady
      \<and> \<not> (rd8 (tabulate 2048 (snd ev)) 0 = Some 0x1
             \<and> rdn (tabulate 2048 (snd ev)) 1 5 = Some (cbytes ''CD001'')))"

declare get_pathtable_entry_loop.simps [simp del]
declare resolve_pathtable_path_loop.simps [simp del]
declare search_pathtable.simps [simp del]

section \<open>Position codec: the round trip\<close>

lemma sdiv_nonneg: "0 \<le> a \<Longrightarrow> 0 < b \<Longrightarrow> (a::int) sdiv b = a div b"
  by (simp add: signed_divide_int_def sgn_if)

lemma smod_nonneg: "0 \<le> a \<Longrightarrow> 0 < b \<Longrightarrow> (a::int) smod b = a mod b"
  by (simp add: smod_mod_positive)

lemma or_nibble:
  assumes "0 \<le> r" "r < 16"
  shows "(q * 16) OR r = q * 16 + (r::int)"
proof -
  have "push_bit 4 q + take_bit 4 r = push_bit 4 q OR take_bit 4 r"
    by (rule disjunctive_add) (auto simp: bit_simps)
  moreover have "take_bit 4 r = r"
    using assms by (simp add: take_bit_int_eq_self)
  ultimately show ?thesis
    by (simp add: push_bit_eq_mult)
qed

lemma itob_add: "0 \<le> m \<Longrightarrow> itob m = (m div 10) * 16 + m mod 10"
proof -
  assume m: "0 \<le> m"
  have "0 \<le> m mod 10" "m mod 10 < 16"
    using pos_mod_bound [of 10 m] by simp_all
  then show ?thesis
    using m by (simp add: itob_def sdiv_nonneg smod_nonneg or_nibble)
qed

text \<open>A value below 160 survives the BCD encoding into one byte.\<close>

lemma btoi_itob:
  assumes "0 \<le> m" "m < 160"
  shows "btoi (uint (word_of_int (itob m) :: u8)) = m"
proof -
  have r: "0 \<le> m mod 10" "m mod 10 < 10"
    by simp_all
  have q: "0 \<le> m div 10" "m div 10 < 16"
    using assms by simp_all
  let ?v = "(m div 10) * 16 + m mod 10"
  have v: "0 \<le> ?v" "?v < 256"
    using r q by simp_all
  have "uint (word_of_int ?v :: u8) = ?v mod 256"
    by (simp only: uint_word_of_int) simp
  then have u: "uint (word_of_int (itob m) :: u8) = ?v"
    using v assms by (simp only: itob_add) simp
  have d: "?v div 16 = m div 10"
    using r by simp
  have e: "?v mod 16 = m mod 10"
    using r by simp
  show ?thesis
    using v d e by (simp add: u btoi_def sdiv_nonneg smod_nonneg)
qed

text \<open>
  C6. For every linear sector address \<open>x\<close> from the start of the lead-in (\<open>-150\<close>)
  up to the last one whose minute count still fits the BCD byte (below 719850, which
  covers every address of a disc), converting it to minute/second/sector coordinates
  with \<^verbatim>\<open>CdIntToPos\<close> and back with \<^verbatim>\<open>CdPosToInt\<close> yields \<open>x\<close> again.
\<close>

theorem CdPosToInt_CdIntToPos:
  assumes "- 150 \<le> x" and "x < 719850"
  shows "CdPosToInt (CdIntToPos x p) = x"
proof -
  let ?i = "x + 150"
  have i: "0 \<le> ?i" "?i < 720000"
    using assms by simp_all
  have m: "0 \<le> ?i div 4500" "?i div 4500 < 160"
    using i by simp_all
  have s: "0 \<le> (?i div 75) mod 60" "(?i div 75) mod 60 < 160"
    using pos_mod_bound [of 60 "?i div 75"] by simp_all
  have f: "0 \<le> ?i mod 75" "?i mod 75 < 160"
    using pos_mod_bound [of 75 ?i] by simp_all
  have d75: "0 \<le> ?i div 75"
    using i by simp
  have split: "?i div 4500 * 4500 + ((?i div 75) mod 60) * 75 + ?i mod 75 = ?i"
  proof -
    have "?i div 4500 = (?i div 75) div 60"
      by (simp add: div_mult2_eq)
    moreover have "(?i div 75) div 60 * 60 + (?i div 75) mod 60 = ?i div 75"
      by simp
    moreover have "?i div 75 * 75 + ?i mod 75 = ?i"
      by simp
    ultimately show ?thesis
      by arith
  qed
  have "CdPosToInt (CdIntToPos x p) =
        ?i div 4500 * 4500 + ((?i div 75) mod 60) * 75 + ?i mod 75 - 150"
    using i d75 btoi_itob [OF m] btoi_itob [OF s] btoi_itob [OF f]
    by (simp add: CdPosToInt_def CdIntToPos_def Let_def sdiv_nonneg smod_nonneg)
  then show ?thesis
    using split by simp
qed

theorem CdPosToInt_CdIntToPos_witness:
  "- 150 \<le> (25::int) \<and> (25::int) < 719850 \<and> CdPosToInt (CdIntToPos 25 loc0) = 25"
  using CdPosToInt_CdIntToPos [of 25 loc0] by simp

section \<open>Buffers and images\<close>

lemma length_tabulate [simp]: "length (tabulate n f) = n"
  by (simp add: tabulate_def)

lemma nth_tabulate [simp]: "i < n \<Longrightarrow> tabulate n f ! i = f i"
  by (simp add: tabulate_def)

lemma tabulate_cong: "(\<And>i. i < n \<Longrightarrow> f i = g i) \<Longrightarrow> tabulate n f = tabulate n g"
  by (simp add: tabulate_def)

text \<open>What a read of one sector, and of two, leaves in the buffer.\<close>

lemma tabulate_one_sector:
  "tabulate 2048 (\<lambda>i. d (l + int (i div 2048)) (i mod 2048)) = tabulate 2048 (d l)"
  by (rule tabulate_cong) simp

lemma tabulate_two_sectors:
  "tabulate 4096 (\<lambda>i. d (l + int (i div 2048)) (i mod 2048)) =
   tabulate 4096 (\<lambda>i. if i < 2048 then d l i else d (l + 1) (i - 2048))"
proof (rule tabulate_cong)
  fix i :: nat
  assume "i < 4096"
  show "d (l + int (i div 2048)) (i mod 2048) = (if i < 2048 then d l i else d (l + 1) (i - 2048))"
  proof (cases "i < 2048")
    case True
    then show ?thesis by simp
  next
    case False
    with \<open>i < 4096\<close> have "i div 2048 = 1" "i mod 2048 = i - 2048"
      by (simp_all add: div_eq_dividend_iff mod_if)
    then show ?thesis using False by simp
  qed
qed

lemma rd8_tabulate: "rd8 (tabulate n f) i = (if i < n then Some (f i) else None)"
  by (simp add: rd8_def)

lemma rd16_tabulate:
  "rd16 (tabulate n f) i =
     (if i + 2 \<le> n then Some (word_of_nat (unat (f i) + 256 * unat (f (i + 1)))) else None)"
  by (simp add: rd16_def)

lemma rd32_tabulate:
  "rd32 (tabulate n f) i =
     (if i + 4 \<le> n
      then Some (word_of_nat (unat (f i) + 256 * unat (f (i + 1)) + 65536 * unat (f (i + 2))
                   + 16777216 * unat (f (i + 3))))
      else None)"
  by (simp add: rd32_def)

lemma rdn_tabulate:
  "rdn (tabulate n f) off k =
     (if off + k \<le> n then Some (map (\<lambda>i. f (off + i)) [0..<k]) else None)"
  by (auto simp: rdn_def tabulate_def take_map drop_map intro!: nth_equalityI)

lemma rdn_all: "rdn buf 0 (length buf) = Some buf"
  by (simp add: rdn_def)

lemma upt_step: "[i..<j] = (if i < j then i # [i + 1..<j] else [])"
  by (simp add: upt_rec)

text \<open>An image that starts with \<open>bs\<close> and is blank after it, as a buffer.\<close>

lemma tabulate_put_blank:
  assumes "length bs \<le> n"
  shows "tabulate n (put 0 bs blank) = bs @ replicate (n - length bs) 0"
proof (rule nth_equalityI)
  show "length (tabulate n (put 0 bs blank)) = length (bs @ replicate (n - length bs) 0)"
    using assms by simp
next
  fix i
  assume "i < length (tabulate n (put 0 bs blank))"
  then have "i < n" by simp
  then show "tabulate n (put 0 bs blank) ! i = (bs @ replicate (n - length bs) 0) ! i"
    by (simp add: put_def blank_def nth_append)
qed

lemma CdIntToPos_twice: "CdIntToPos a (CdIntToPos b p) = CdIntToPos a p"
  by (simp add: CdIntToPos_def Let_def)

lemma CdPosToInt_param:
  "CdPosToInt \<lparr>minute = minute l, second = second l, sector = sector l, track = 0\<rparr> = CdPosToInt l"
  by (simp add: CdPosToInt_def)

lemmas buf_simps = rd8_tabulate rd16_tabulate rd32_tabulate rdn_tabulate

lemmas img_defs = demo_entries_def put_def blank_def le32_def le16_def dir_record_def
  pathtable_record_def pathtable_bytes_def cbytes_def

lemmas env_simps = demo_env_def always_def steady_status_def no_junk_def sync_complete_def
  no_events_def getloc_zero_def

lemmas pos_defs = CdPosToInt_def CdIntToPos_def loc0_def itob_def btoi_def loc_param_def

lemmas io_defs = CdControl_def CdStatus_def CdReadRetry_def CdReadSync_def

section \<open>Running the code on the disc\<close>

subsection \<open>Mounting\<close>

lemma descr_magic: "descriptor_id (tabulate 2048 demo_descriptor) = Some (cbytes ''CD001'')"
  by (simp add: descriptor_id_def rdn_tabulate upt_step demo_descriptor_def img_defs)

lemma descr_size: "pathTableSize_lsb (tabulate 2048 demo_descriptor) = Some 22"
  by (simp add: pathTableSize_lsb_def rd32_tabulate demo_descriptor_def img_defs)

lemma descr_offs: "pathTable1Offs (tabulate 2048 demo_descriptor) = Some 18"
  by (simp add: pathTable1Offs_def rd32_tabulate demo_descriptor_def img_defs)

lemma demo_disc_simps:
  "demo_disc 16 = demo_descriptor" "demo_disc 18 = demo_pathtable" "demo_disc 20 = demo_data"
  "demo_disc 22 = demo_root" "demo_disc 23 = demo_root2"
  by (simp_all add: demo_disc_def)

text \<open>The first call of \<^verbatim>\<open>_CdReadIsoDescriptor\<close> after start-up mounts the disc.\<close>

lemma boot_mounts: "CdReadIsoDescriptor demo_env 0 boot = Some (0, mounted)"
  by (simp add: CdReadIsoDescriptor_def lid_check_def read_pathtable_def
      boot_def mounted_def io_defs pos_defs env_simps Let_def tabulate_one_sector
      demo_disc_simps descr_magic descr_size descr_offs)

lemma mounted_fields:
  "cd_media_changed mounted = 0" "cd_iso_last_dir_lba mounted = 0" "next_dir mounted = 0"
  "cd_iso_descriptor_buff mounted = tabulate 2048 demo_descriptor"
  "cd_iso_pathtable_buff mounted = Some (tabulate 2048 demo_pathtable)"
  "dir_heap mounted = no_dirs"
  by (simp_all add: mounted_def boot_def)

lemma demo_tables_mounted: "demo_tables mounted"
  by (simp add: demo_tables_def mounted_fields)

lemma mounted_hit:
  "cd_media_changed s = 0 \<Longrightarrow>
   CdReadIsoDescriptor demo_env 0 s = Some (0, s\<lparr>cd_log := cd_log s @ [Control CdlNop []]\<rparr>)"
  by (simp add: CdReadIsoDescriptor_def lid_check_def io_defs env_simps)

subsection \<open>The path table\<close>

lemmas pt_eval = get_pathtable_entry_def descr_size get_pathtable_entry_loop.simps deref_def
  buf_simps pathtable_entry_at_def sizeof_ISO_PATHTABLE_ENTRY_def upt_step

lemma gpe_demo_count:
  "demo_tables s \<Longrightarrow> get_pathtable_entry s 0 False False = Some (3, None, None)"
  by (simp add: demo_tables_def pt_eval demo_pathtable_def img_defs)

lemma gpe_demo_1:
  "demo_tables s \<Longrightarrow> get_pathtable_entry s 1 True True =
     Some (0, Some \<lparr>nameLength = 1, extLength = 0, dirOffs = 22, dirLevel = 1\<rparr>, Some [0])"
  by (simp add: demo_tables_def pt_eval demo_pathtable_def img_defs)

lemma gpe_demo_2:
  "demo_tables s \<Longrightarrow> get_pathtable_entry s 2 True True =
     Some (0, Some \<lparr>nameLength = 4, extLength = 0, dirOffs = 20, dirLevel = 1\<rparr>,
           Some (cbytes ''DATA''))"
  by (simp add: demo_tables_def pt_eval demo_pathtable_def img_defs)

lemma gpe_demo_1':
  "demo_tables s \<Longrightarrow> get_pathtable_entry s 1 True False =
     Some (0, Some \<lparr>nameLength = 1, extLength = 0, dirOffs = 22, dirLevel = 1\<rparr>, None)"
  by (simp add: demo_tables_def pt_eval demo_pathtable_def img_defs)

lemma gpe_demo_2':
  "demo_tables s \<Longrightarrow> get_pathtable_entry s 2 True False =
     Some (0, Some \<lparr>nameLength = 4, extLength = 0, dirOffs = 20, dirLevel = 1\<rparr>, None)"
  by (simp add: demo_tables_def pt_eval demo_pathtable_def img_defs)

text \<open>The paths the table resolves to: a backslash for the root (the root's name is
  one NUL byte) and \<^verbatim>\<open>\DATA\<close>.\<close>

lemma resolve_demo_1:
  "demo_tables s \<Longrightarrow> resolve_pathtable_path s 1 = Some (Some [0x5C, 0])"
  by (simp add: resolve_pathtable_path_def resolve_pathtable_path_loop.simps gpe_demo_1
      DEFAULT_PATH_SEP_def)

lemma resolve_demo_2:
  "demo_tables s \<Longrightarrow> resolve_pathtable_path s 2 = Some (Some (0x5C # cbytes ''DATA''))"
  by (simp add: resolve_pathtable_path_def resolve_pathtable_path_loop.simps gpe_demo_2
      DEFAULT_PATH_SEP_def cbytes_def)

lemmas search_eval = search_pathtable.simps resolve_demo_1 resolve_demo_2 streq_def cstr_def
  cbytes_def

lemma search_demo_noslash:
  "demo_tables s \<Longrightarrow> search_pathtable s (cbytes ''DATA'') 3 1 = Some 0"
  by (simp add: search_eval)

lemma search_demo_slash:
  "demo_tables s \<Longrightarrow> search_pathtable s (0x2F # cbytes ''DATA'') 3 1 = Some 0"
  by (simp add: search_eval)

lemma search_demo_backslash:
  "demo_tables s \<Longrightarrow> search_pathtable s (0x5C # cbytes ''DATA'') 3 1 = Some 2"
  by (simp add: search_eval)

lemma search_demo_root:
  "demo_tables s \<Longrightarrow> search_pathtable s [0x5C] 3 1 = Some 1"
  by (simp add: search_eval)

subsection \<open>Directory records\<close>

lemma load_data:
  "cd_iso_last_dir_lba s \<noteq> 20 \<Longrightarrow>
   CdReadIsoDirectory demo_env 20 s =
     Some (0, s\<lparr>cd_log := cd_log s @ [Control CdlSetloc [0x00, 0x02, 0x20], ReadRetry 1],
                cd_head := 21, cd_read_result := 0,
                cd_iso_directory_buff := Some (tabulate 2048 demo_data),
                cd_iso_directory_len := 2048, cd_iso_last_dir_lba := 20,
                cd_iso_error := CdlIsoOkay\<rparr>)"
  by (simp add: CdReadIsoDirectory_def io_defs pos_defs env_simps Let_def tabulate_one_sector
      demo_disc_simps rd32_tabulate demo_data_def img_defs)

lemma load_root:
  "cd_iso_last_dir_lba s \<noteq> 22 \<Longrightarrow>
   CdReadIsoDirectory demo_env 22 s =
     Some (0, s\<lparr>cd_log := cd_log s @ [Control CdlSetloc [0x00, 0x02, 0x22], ReadRetry 1,
                                        Control CdlSetloc [0x00, 0x02, 0x22], ReadRetry 2],
                cd_head := 24, cd_read_result := 0,
                cd_iso_directory_buff := Some (tabulate 4096 root_image),
                cd_iso_directory_len := 4096, cd_iso_last_dir_lba := 22,
                cd_iso_error := CdlIsoOkay\<rparr>)"
  apply (simp add: CdReadIsoDirectory_def io_defs pos_defs env_simps Let_def tabulate_one_sector
      demo_disc_simps rd32_tabulate demo_root_def img_defs)
  apply (simp add: tabulate_two_sectors demo_disc_simps root_image_def [abs_def] cong: if_cong)
  done

lemma find_level1:
  "cd_iso_directory_buff s = Some (tabulate 2048 demo_data) \<Longrightarrow>
   cd_iso_directory_len s = 2048 \<Longrightarrow>
   find_dir_entry s (cbytes ''LEVEL1.BIN;1'') =
     Some (0, Some \<lparr>entryLength = 46, entryOffs = 25, entrySize = 4096, flags = 0,
                     identifierLen = 12\<rparr>)"
  by (simp add: find_dir_entry_def find_dir_entry_loop.simps deref_def buf_simps dir_entry_at_def
      sizeof_ISO_DIR_ENTRY_def upt_step streq_def cstr_def demo_data_def img_defs)

subsection \<open>Lookup with backslashes\<close>

lemma pathname_level1: "get_pathname level1_path = Some (True, 0x5C # cbytes ''DATA'')"
  by (simp add: get_pathname_def level1_path_def cbytes_def IS_PATH_SEP_def)

lemma filename_level1: "get_filename level1_path = Some (cbytes ''LEVEL1.BIN'')"
  by (simp add: get_filename_def level1_path_def cbytes_def IS_PATH_SEP_def)

lemma cstr_level1: "cstr level1_path = level1_path"
  by (simp add: cstr_def level1_path_def cbytes_def)

lemma name_level1:
  "0x3B \<notin> set (cbytes ''LEVEL1.BIN'')"
  "cbytes ''LEVEL1.BIN'' @ cbytes '';1'' = cbytes ''LEVEL1.BIN;1''"
  "length (cbytes ''LEVEL1.BIN'') = 10"
  by (simp_all add: cbytes_def)

lemma search_level1:
  "demo_tables s \<Longrightarrow> cd_media_changed s = 0 \<Longrightarrow> cd_iso_last_dir_lba s \<noteq> 20 \<Longrightarrow>
   CdSearchFile demo_env fp level1_path s =
     Some (True,
           fp\<lparr>name := cbytes ''LEVEL1.BIN;1'', pos := CdIntToPos 25 (pos fp), fsize := 4096\<rparr>,
           s\<lparr>cd_log := cd_log s @ [Control CdlNop [], Control CdlSetloc [0x00, 0x02, 0x20],
                                   ReadRetry 1],
             cd_head := 21, cd_read_result := 0,
             cd_iso_directory_buff := Some (tabulate 2048 demo_data),
             cd_iso_directory_len := 2048, cd_iso_last_dir_lba := 20,
             cd_iso_error := CdlIsoOkay\<rparr>)"
  by (simp add: CdSearchFile_def cstr_level1 mounted_hit gpe_demo_count resolve_demo_2
      pathname_level1 search_demo_backslash gpe_demo_2' load_data filename_level1 name_level1
      find_level1 demo_tables_def Let_def)

text \<open>
  With backslashes and a leading backslash the file of the scenario is found, with the
  version suffix appended, and the record of DATA is cached afterwards.
\<close>

text \<open>
  Every path rebuilt from the path table starts with the default separator, a backslash,
  and the search compares the directory part of the requested path with the rebuilt
  paths by string equality. So a directory is found only for a path whose directory part
  starts with a backslash.
\<close>

lemma resolve_loop_starts_with_sep:
  "resolve_pathtable_path_loop s entry acc = Some (Some p) \<Longrightarrow> \<exists>rest. p = DEFAULT_PATH_SEP # rest"
proof (induction s entry acc rule: resolve_pathtable_path_loop.induct)
  case (1 s entry acc)
  note unf = resolve_pathtable_path_loop.simps [of s entry acc]
  show ?case
  proof (cases "get_pathtable_entry s entry True True")
    case None
    with "1.prems" unf show ?thesis by simp
  next
    case (Some res)
    obtain r te nm where res: "res = (r, te, nm)"
      by (cases res) auto
    show ?thesis
    proof (cases "r = 0")
      case False
      with "1.prems" unf Some res show ?thesis by simp
    next
      case True
      show ?thesis
      proof (cases te)
        case None
        with "1.prems" unf Some res True show ?thesis by simp
      next
        case (Some tbl_entry)
        note te = this
        show ?thesis
        proof (cases nm)
          case None
          with "1.prems" unf \<open>get_pathtable_entry s entry True True = Some res\<close> res True te
          show ?thesis by simp
        next
          case (Some namebuff)
          let ?acc' = "DEFAULT_PATH_SEP # take (unat (nameLength tbl_entry)) namebuff @ acc"
          note g = \<open>get_pathtable_entry s entry True True = Some res\<close> res True te Some
          show ?thesis
          proof (cases "127 < length ?acc'")
            case True
            with "1.prems" unf g show ?thesis by (simp add: Let_def)
          next
            case False
            note fits = this
            show ?thesis
            proof (cases "1 < uint (dirLevel tbl_entry)")
              case True
              with "1.prems" unf g fits
              have "resolve_pathtable_path_loop s (uint (dirLevel tbl_entry)) ?acc' = Some (Some p)"
                by (simp add: Let_def)
              from "1.IH" [OF \<open>get_pathtable_entry s entry True True = Some res\<close>
                  res [symmetric] refl _ refl te Some refl fits True this]
              show ?thesis using \<open>r = 0\<close> by simp
            next
              case False
              with "1.prems" unf g fits have "p = ?acc'"
                by (simp add: Let_def)
              then show ?thesis by simp
            qed
          qed
        qed
      qed
    qed
  qed
qed

lemma search_pathtable_needs_sep:
  "search_pathtable s path num_dirs i = Some k \<Longrightarrow> k \<noteq> 0 \<Longrightarrow>
   \<exists>rest. cstr path = DEFAULT_PATH_SEP # rest"
proof (induction s path num_dirs i rule: search_pathtable.induct)
  case (1 s path num_dirs i)
  show ?case
  proof (cases "i < num_dirs")
    case False
    with "1.prems" show ?thesis
      by (subst (asm) search_pathtable.simps) simp
  next
    case True
    note lt = this
    show ?thesis
    proof (cases "resolve_pathtable_path s i")
      case None
      with lt "1.prems" show ?thesis
        by (subst (asm) search_pathtable.simps) simp
    next
      case (Some r)
      show ?thesis
      proof (cases r)
        case None
        with Some lt "1.prems" "1.IH"(1) show ?thesis
          by (subst (asm) search_pathtable.simps) simp
      next
        case (Some rbuff)
        note rb = \<open>resolve_pathtable_path s i = Some r\<close> Some
        show ?thesis
        proof (cases "streq path rbuff")
          case True
          from rb obtain rest where "rbuff = DEFAULT_PATH_SEP # rest"
            using resolve_loop_starts_with_sep [of s i "[]" rbuff]
            by (auto simp: resolve_pathtable_path_def)
          with True show ?thesis
            by (simp add: streq_def cstr_def DEFAULT_PATH_SEP_def)
        next
          case False
          with rb lt "1.prems" "1.IH"(2) show ?thesis
            by (subst (asm) search_pathtable.simps) simp
        qed
      qed
    qed
  qed
qed

lemma search_level1_mounted:
  "CdSearchFile demo_env fp0 level1_path mounted =
     Some (True, \<lparr>pos = CdIntToPos 25 loc0, fsize = 4096, name = cbytes ''LEVEL1.BIN;1''\<rparr>,
           data_cached)"
  using search_level1 [OF demo_tables_mounted, of fp0]
  by (simp add: mounted_fields data_cached_def fp0_def)
     (simp add: mounted_def boot_def)

section \<open>File lookup\<close>

lemma pathname_slash: "get_pathname level1_path_slash = Some (True, cbytes ''DATA'')"
  by (simp add: get_pathname_def level1_path_slash_def cbytes_def IS_PATH_SEP_def)

lemma cstr_slash: "cstr level1_path_slash = level1_path_slash"
  by (simp add: cstr_def level1_path_slash_def cbytes_def)

text \<open>
  C1. The claim: on a disc whose path table has the single non-root entry DATA at
  sector 20, whose record has the file LEVEL1.BIN;1 at sector 25 with size 4096,
  \<^verbatim>\<open>CdSearchFile(fp, "DATA/LEVEL1.BIN")\<close> succeeds and fills \<^verbatim>\<open>fp\<close>. The code on
  that disc, from start-up: the search path \<^verbatim>\<open>DATA\<close> is compared with the paths
  rebuilt from the path table, which all start with a backslash, so no directory
  matches; the call returns the null pointer, stores nothing to \<^verbatim>\<open>fp\<close> and never
  loads a directory record.
\<close>

theorem CdSearchFile_scenario:
  "CdSearchFile demo_env fp0 level1_path_slash boot = Some (False, fp0, mounted)"
  by (simp add: CdSearchFile_def cstr_slash boot_mounts gpe_demo_count resolve_demo_2
      demo_tables_mounted pathname_slash search_demo_noslash)

text \<open>A leading slash does not help either: only backslashes match.\<close>

lemma CdSearchFile_leading_slash:
  "CdSearchFile demo_env fp0 (0x2F # level1_path_slash) boot = Some (False, fp0, mounted)"
proof -
  have "cstr (0x2F # level1_path_slash) = 0x2F # level1_path_slash"
    by (simp add: cstr_def level1_path_slash_def cbytes_def)
  moreover have "get_pathname (0x2F # level1_path_slash) = Some (True, 0x2F # cbytes ''DATA'')"
    by (simp add: get_pathname_def level1_path_slash_def cbytes_def IS_PATH_SEP_def)
  ultimately show ?thesis
    by (simp add: CdSearchFile_def boot_mounts gpe_demo_count resolve_demo_2
        demo_tables_mounted search_demo_slash)
qed

section \<open>Directory iteration\<close>

lemma open_root:
  "demo_tables s \<Longrightarrow> cd_media_changed s = 0 \<Longrightarrow> cd_iso_last_dir_lba s \<noteq> 22 \<Longrightarrow>
   CdOpenDir demo_env [0x5C] s =
     Some (Suc (next_dir s),
           s\<lparr>cd_log := cd_log s @ [Control CdlNop [], Control CdlSetloc [0x00, 0x02, 0x22],
                                   ReadRetry 1, Control CdlSetloc [0x00, 0x02, 0x22], ReadRetry 2],
             cd_head := 24, cd_read_result := 0,
             cd_iso_directory_buff := Some (tabulate 4096 root_image),
             cd_iso_directory_len := 4096, cd_iso_last_dir_lba := 22,
             cd_iso_error := CdlIsoOkay,
             dir_heap := (dir_heap s)(Suc (next_dir s) :=
                Some \<lparr>d_pos = 68, d_len = 4096, d_dir = tabulate 4096 root_image\<rparr>),
             next_dir := Suc (next_dir s)\<rparr>)"
  apply (simp add: CdOpenDir_def cstr_def mounted_hit gpe_demo_count search_demo_root gpe_demo_1'
      load_root demo_tables_def deref_def)
  apply (simp add: rdn_all [of "tabulate 4096 root_image", simplified] skip_entry_def rd8_tabulate
      root_image_def demo_root_def img_defs)
  done

lemmas root_eval = CdReadDir_def dir_at_def buf_simps sizeof_ISO_DIR_ENTRY_def upt_step
  root_image_def demo_root_def demo_root2_def img_defs

lemma read_root_first:
  "h \<noteq> 0 \<Longrightarrow>
   dir_heap s h = Some \<lparr>d_pos = 68, d_len = 4096, d_dir = tabulate 4096 root_image\<rparr> \<Longrightarrow>
   cd_iso_directory_len s = 4096 \<Longrightarrow>
   CdReadDir h file s =
     Some (1, file\<lparr>name := cbytes ''DATA'', pos := CdIntToPos 20 (pos file), fsize := 2048\<rparr>,
           s\<lparr>dir_heap := (dir_heap s)(h :=
                Some \<lparr>d_pos = 2048, d_len = 4096, d_dir = tabulate 4096 root_image\<rparr>)\<rparr>)"
  by (simp add: root_eval)

lemma read_root_second:
  "h \<noteq> 0 \<Longrightarrow>
   dir_heap s h = Some \<lparr>d_pos = 2048, d_len = 4096, d_dir = tabulate 4096 root_image\<rparr> \<Longrightarrow>
   cd_iso_directory_len s = 4096 \<Longrightarrow>
   CdReadDir h file s =
     Some (1, file\<lparr>name := cbytes ''README.TXT;1'', pos := CdIntToPos 40 (pos file),
                    fsize := 300\<rparr>,
           s\<lparr>dir_heap := (dir_heap s)(h :=
                Some \<lparr>d_pos = 4096, d_len = 4096, d_dir = tabulate 4096 root_image\<rparr>)\<rparr>)"
  by (simp add: root_eval)

lemma read_root_cut:
  "h \<noteq> 0 \<Longrightarrow>
   dir_heap s h = Some \<lparr>d_pos = 2048, d_len = 4096, d_dir = tabulate 4096 root_image\<rparr> \<Longrightarrow>
   cd_iso_directory_len s = 2048 \<Longrightarrow>
   CdReadDir h file s = Some (0, file, s)"
  by (simp add: CdReadDir_def dir_at_def)

text \<open>
  C2. The claim: the entries a cursor yields, and where its iteration ends, depend only
  on the snapshot taken by \<^verbatim>\<open>CdOpenDir\<close>, also when the shared directory cache is
  repointed in between. The code, on the root directory of the disc, whose record is two
  sectors long: read on its own, the second call of \<^verbatim>\<open>CdReadDir\<close> returns 1 with
  the entry README.TXT;1 of the second sector; with a \<^verbatim>\<open>CdSearchFile\<close> in the
  directory DATA (one sector) in between, the same call returns 0 and stores nothing,
  because \<^verbatim>\<open>CdReadDir\<close> compares the cursor with \<^verbatim>\<open>_cd_iso_directory_len\<close> of the
  shared cache and not with the \<^verbatim>\<open>_len\<close> of the snapshot.
\<close>

theorem CdReadDir_follows_shared_cache:
  "list_root =
     Some (1, \<lparr>pos = CdIntToPos 40 loc0, fsize = 300, name = cbytes ''README.TXT;1''\<rparr>)
   \<and> list_root_lookup =
     Some (0, \<lparr>pos = CdIntToPos 20 loc0, fsize = 2048, name = cbytes ''DATA''\<rparr>)"
  by (simp add: list_root_def list_root_lookup_def DEFAULT_PATH_SEP_def open_root
      mounted_fields read_root_first read_root_second search_level1
      demo_tables_def read_root_cut fp0_def CdIntToPos_twice)

text \<open>
  C8. When the cursor of \<^verbatim>\<open>CdReadDir\<close> stands on a zero byte, before the declared
  length of the directory record or not, the call returns 0, stores nothing to the
  \<^verbatim>\<open>CdlFILE\<close> and changes nothing: it is the end of the directory, not an error.
  The call does exactly the same when the cursor has reached the declared length, which
  the code takes from \<^verbatim>\<open>_cd_iso_directory_len\<close>.
\<close>

theorem CdReadDir_end:
  assumes "dir_at s dir = Some d"
  shows "(rd8 (d_dir d) (unat (d_pos d)) = Some 0
          \<longrightarrow> CdReadDir dir file s = Some (0, file, s))
       \<and> (word_of_int (cd_iso_directory_len s) \<le> d_pos d
          \<longrightarrow> CdReadDir dir file s = Some (0, file, s))"
  using assms by (simp add: CdReadDir_def)

lemma listing_fields:
  "dir_at (listing p) 1 = Some \<lparr>d_pos = p, d_len = 4096, d_dir = tabulate 4096 padded_data\<rparr>"
  "cd_iso_directory_len (listing p) = 4096"
  by (simp_all add: listing_def listing_dirs_def dir_at_def)

theorem CdReadDir_end_witness:
  "dir_at (listing 2048) 1 =
     Some \<lparr>d_pos = 2048, d_len = 4096, d_dir = tabulate 4096 padded_data\<rparr>
   \<and> (2048 :: u32) < word_of_int (cd_iso_directory_len (listing 2048))
   \<and> rd8 (tabulate 4096 padded_data) (unat (2048 :: u32)) = Some 0
   \<and> CdReadDir 1 fp0 (listing 2048) = Some (0, fp0, listing 2048)
   \<and> dir_at (listing 4096) 1 =
     Some \<lparr>d_pos = 4096, d_len = 4096, d_dir = tabulate 4096 padded_data\<rparr>
   \<and> word_of_int (cd_iso_directory_len (listing 4096)) \<le> (4096 :: u32)
   \<and> CdReadDir 1 fp0 (listing 4096) = Some (0, fp0, listing 4096)"
proof -
  note a = listing_fields(1) [of 2048] and b = listing_fields(1) [of 4096]
  show ?thesis
    using a b CdReadDir_end [OF a, of fp0] CdReadDir_end [OF b, of fp0]
    by (simp add: listing_fields(2) rd8_tabulate padded_data_def)
qed

text \<open>
  C10. \<^verbatim>\<open>CdCloseDir\<close> with a null handle returns at once: nothing is freed and the
  state is what it was.
\<close>

theorem CdCloseDir_null: "CdCloseDir 0 s = Some s"
  by (simp add: CdCloseDir_def)

section \<open>Directory record cache\<close>

lemmas dir_eval = CdReadIsoDirectory_def CdControl_def CdReadRetry_def CdReadSync_def Let_def
  loc_param_def

lemma CdReadIsoDirectory_hit:
  "lba = cd_iso_last_dir_lba s \<Longrightarrow> CdReadIsoDirectory e lba s = Some (0, s)"
  by (simp add: CdReadIsoDirectory_def)

lemma CdReadIsoDirectory_result:
  assumes "CdReadIsoDirectory e lba s = Some (r, s')"
  shows "(r = 0 \<and> cd_iso_last_dir_lba s' = lba) \<or>
         (r = - 1 \<and> cd_iso_last_dir_lba s' = cd_iso_last_dir_lba s
            \<and> cd_iso_last_dir_lba s' \<noteq> lba)"
  using assms by (auto simp: dir_eval split: if_splits Option.bind_splits)

lemma CdReadIsoDirectory_loaded:
  assumes "CdReadIsoDirectory e lba s = Some (0, s')" and "lba \<noteq> cd_iso_last_dir_lba s"
  shows "cd_read_result s' = 0"
  using assms by (auto simp: dir_eval split: if_splits Option.bind_splits)

lemma CdReadIsoDirectory_miss:
  assumes "lba \<noteq> cd_iso_last_dir_lba s" and "CdReadIsoDirectory e lba s = Some (r, s')"
  shows "take (Suc (length (cd_log s))) (cd_log s') =
           cd_log s @ [Control CdlSetloc (loc_param (CdIntToPos lba loc0))]"
  using assms by (auto simp: dir_eval split: if_splits Option.bind_splits)

lemma CdReadIsoDirectory_seek_refused:
  assumes "lba \<noteq> cd_iso_last_dir_lba s" and "\<not> ctl_ack e (length (cd_log s))"
  shows "CdReadIsoDirectory e lba s =
           Some (- 1, s\<lparr>cd_log := cd_log s @ [Control CdlSetloc (loc_param (CdIntToPos lba loc0))],
                         cd_iso_error := CdlIsoSeekError\<rparr>)"
  using assms by (simp add: CdReadIsoDirectory_def CdControl_def Let_def)

text \<open>
  C3, as the code has it. When \<^verbatim>\<open>_CdReadIsoDirectory(lba)\<close> fails (it returns
  \<open>-1\<close>), the marker is not \<open>lba\<close> afterwards, so the next request for \<open>lba\<close> is
  not a cache hit: it starts a fresh load with a seek to \<open>lba\<close>. When it returns 0 the
  marker is \<open>lba\<close>, and where that was not a cache hit the last read has completed:
  the marker is set to \<open>lba\<close> only when the full record was read. A failure at the
  first seek changes the error code and nothing else, so the directory cached before it
  stays cached.
\<close>

theorem CdReadIsoDirectory_marker:
  assumes "CdReadIsoDirectory e lba s = Some (r, s')"
  shows "(r = 0 \<or> r = - 1)
       \<and> (r = 0 \<longrightarrow> cd_iso_last_dir_lba s' = lba)
       \<and> (r = 0 \<and> lba \<noteq> cd_iso_last_dir_lba s \<longrightarrow> cd_read_result s' = 0)
       \<and> (r \<noteq> 0 \<longrightarrow> cd_iso_last_dir_lba s' \<noteq> lba)
       \<and> (r \<noteq> 0 \<longrightarrow>
            (\<forall>e2 r2 s2. CdReadIsoDirectory e2 lba s' = Some (r2, s2) \<longrightarrow>
               take (Suc (length (cd_log s'))) (cd_log s2) =
                 cd_log s' @ [Control CdlSetloc (loc_param (CdIntToPos lba loc0))]))
       \<and> (lba \<noteq> cd_iso_last_dir_lba s \<and> \<not> ctl_ack e (length (cd_log s)) \<longrightarrow>
            r = - 1 \<and>
            s' = s\<lparr>cd_log := cd_log s @ [Control CdlSetloc (loc_param (CdIntToPos lba loc0))],
                   cd_iso_error := CdlIsoSeekError\<rparr>)"
proof -
  note res = CdReadIsoDirectory_result [OF assms]
  have a: "r = 0 \<or> r = - 1"
    using res by auto
  have b: "r = 0 \<longrightarrow> cd_iso_last_dir_lba s' = lba"
    using res by auto
  have c: "r = 0 \<and> lba \<noteq> cd_iso_last_dir_lba s \<longrightarrow> cd_read_result s' = 0"
    using assms CdReadIsoDirectory_loaded by blast
  have d: "r \<noteq> 0 \<longrightarrow> cd_iso_last_dir_lba s' \<noteq> lba"
    using res by auto
  have f: "r \<noteq> 0 \<longrightarrow>
            (\<forall>e2 r2 s2. CdReadIsoDirectory e2 lba s' = Some (r2, s2) \<longrightarrow>
               take (Suc (length (cd_log s'))) (cd_log s2) =
                 cd_log s' @ [Control CdlSetloc (loc_param (CdIntToPos lba loc0))])"
  proof (intro impI allI)
    fix e2 r2 s2
    assume "r \<noteq> 0" and run: "CdReadIsoDirectory e2 lba s' = Some (r2, s2)"
    with d have "lba \<noteq> cd_iso_last_dir_lba s'"
      by auto
    from CdReadIsoDirectory_miss [OF this run]
    show "take (Suc (length (cd_log s'))) (cd_log s2) =
            cd_log s' @ [Control CdlSetloc (loc_param (CdIntToPos lba loc0))]" .
  qed
  have g: "lba \<noteq> cd_iso_last_dir_lba s \<and> \<not> ctl_ack e (length (cd_log s)) \<longrightarrow>
            r = - 1 \<and>
            s' = s\<lparr>cd_log := cd_log s @ [Control CdlSetloc (loc_param (CdIntToPos lba loc0))],
                   cd_iso_error := CdlIsoSeekError\<rparr>"
    using assms CdReadIsoDirectory_seek_refused [of lba s e] by auto
  from a b c d f g show ?thesis
    by blast
qed

lemma data_cached_fields:
  "cd_iso_last_dir_lba data_cached = 20" "cd_read_result data_cached = 0"
  "length (cd_log data_cached) = 7"
  by (simp_all add: data_cached_def mounted_def boot_def)

lemma seek_refused_fields:
  "cd_iso_last_dir_lba seek_refused = 20"
  by (simp add: seek_refused_def data_cached_fields)

lemma seek_refused_run:
  "CdReadIsoDirectory seek_refused_env 22 data_cached = Some (- 1, seek_refused)"
  by (simp add: CdReadIsoDirectory_seek_refused data_cached_fields seek_refused_env_def
      env_simps seek_refused_def pos_defs)

lemma data_cached_run:
  "CdReadIsoDirectory demo_env 20 (mounted\<lparr>cd_log := cd_log mounted @ [Control CdlNop []]\<rparr>) =
     Some (0, data_cached)"
  by (simp add: load_data mounted_fields data_cached_def)
     (simp add: mounted_def boot_def)

text \<open>
  The claim as it was stated fails where a load fails at its seek: after the record of
  DATA (sector 20) was cached, the load of the root record (sector 22) is refused; the
  marker is still 20, not unset, and the next request for sector 20 is served as a
  cache hit, without a fresh load.
\<close>

theorem CdReadIsoDirectory_marker_counterexample:
  "CdReadIsoDirectory seek_refused_env 22 data_cached = Some (- 1, seek_refused)
   \<and> cd_iso_last_dir_lba seek_refused = 20
   \<and> CdReadIsoDirectory seek_refused_env 20 seek_refused = Some (0, seek_refused)"
  by (simp add: seek_refused_run seek_refused_fields CdReadIsoDirectory_hit)

theorem CdReadIsoDirectory_marker_witness:
  "CdReadIsoDirectory demo_env 20 (mounted\<lparr>cd_log := cd_log mounted @ [Control CdlNop []]\<rparr>) =
     Some (0, data_cached)
   \<and> cd_iso_last_dir_lba data_cached = 20
   \<and> cd_read_result data_cached = 0
   \<and> CdReadIsoDirectory seek_refused_env 22 data_cached = Some (- 1, seek_refused)
   \<and> cd_iso_last_dir_lba seek_refused \<noteq> 22
   \<and> seek_refused =
       data_cached\<lparr>cd_log := cd_log data_cached
                               @ [Control CdlSetloc (loc_param (CdIntToPos 22 loc0))],
                   cd_iso_error := CdlIsoSeekError\<rparr>"
proof -
  have ack: "\<not> ctl_ack seek_refused_env (length (cd_log data_cached))"
    by (simp add: seek_refused_env_def env_simps)
  note m1 = CdReadIsoDirectory_marker [OF data_cached_run]
  note m2 = CdReadIsoDirectory_marker [OF seek_refused_run]
  from m1 m2 ack show ?thesis
    by (simp add: data_cached_run seek_refused_run data_cached_fields seek_refused_fields)
qed

text \<open>
  Where the load fails at a read, the buffer has been replaced by then, and the marker
  still names the directory cached before: a request for that directory is answered
  as a cache hit from a buffer that no longer holds its record.
\<close>

lemma read_failed_run:
  "CdReadIsoDirectory read_fails_env 22 data_cached = Some (- 1, read_failed)"
  by (simp add: CdReadIsoDirectory_def io_defs pos_defs Let_def data_cached_fields
      read_fails_env_def env_simps read_failed_def)

lemma read_failed_stale_hit:
  "CdReadIsoDirectory demo_env 20 read_failed = Some (0, read_failed)
   \<and> map_option (\<lambda>buf. buf ! 0) (cd_iso_directory_buff data_cached) = Some 34
   \<and> map_option (\<lambda>buf. buf ! 0) (cd_iso_directory_buff read_failed) = Some 0"
proof -
  have "cd_iso_last_dir_lba read_failed = 20"
    by (simp add: read_failed_def data_cached_fields)
  then have "CdReadIsoDirectory demo_env 20 read_failed = Some (0, read_failed)"
    by (simp add: CdReadIsoDirectory_hit)
  moreover have "map_option (\<lambda>buf. buf ! 0) (cd_iso_directory_buff data_cached) = Some 34"
    by (simp add: data_cached_def demo_data_def img_defs)
  moreover have "map_option (\<lambda>buf. buf ! 0) (cd_iso_directory_buff read_failed) = Some 0"
    by (simp add: read_failed_def no_junk_def)
  ultimately show ?thesis
    by simp
qed

section \<open>Volume descriptor cache\<close>

lemma descriptor_cache_hit:
  assumes "cd_media_changed t = 0"
    and "status_after e (length (cd_log t) + 1) AND 0x10 = 0"
  shows "CdReadIsoDescriptor e offs t = Some (0, t\<lparr>cd_log := cd_log t @ [Control CdlNop []]\<rparr>)"
  using assms by (simp add: CdReadIsoDescriptor_def lid_check_def CdControl_def CdStatus_def)

lemma descriptor_reload:
  assumes "cd_media_changed s \<noteq> 0"
    and "ctl_ack e (length (cd_log s))"
    and "\<not> read_fault e (length (cd_log s) + 1)"
    and "\<not> read_fault e (length (cd_log s) + 3)"
    and "buf = tabulate 2048 (disc e (CdPosToInt (CdIntToPos (16 + session_offs) loc0)))"
    and "descriptor_id buf = Some (cbytes ''CD001'')"
    and "pathTableSize_lsb buf = Some sz"
    and "pathTable1Offs buf = Some offs"
    and "0 \<le> sint (push_bit 11 (drop_bit 11 (2047 + sz)))"
  shows "\<exists>s'. CdReadIsoDescriptor e session_offs s = Some (0, s')
           \<and> cd_media_changed s' = 0
           \<and> cd_iso_descriptor_buff s' = buf
           \<and> cd_log s' = cd_log s @
                [Control CdlSetloc (loc_param (CdIntToPos (16 + session_offs) loc0)), ReadRetry 1,
                 Control CdlSetloc (loc_param (CdIntToPos (sint offs) loc0)),
                 ReadRetry (nat (drop_bit 11 (sint (push_bit 11 (drop_bit 11 (2047 + sz))))))]"
  using assms
  by (simp add: CdReadIsoDescriptor_def lid_check_def read_pathtable_def CdControl_def
      CdReadRetry_def CdReadSync_def Let_def loc_param_def CdPosToInt_param tabulate_one_sector
      numeral_3_eq_3)

text \<open>
  C4, as the code has it. With the media-changed flag set, a seek that is
  acknowledged, a descriptor sector that reads and carries the magic, and a path table
  that reads, the next call of \<^verbatim>\<open>_CdReadIsoDescriptor\<close> issues exactly one read of
  the volume descriptor (one sector) and one read of the whole path table, each after
  its seek, returns 0 and leaves the flag clear. Every call with the flag clear and the
  lid closed returns 0 after one no-op and issues no read.
\<close>

theorem media_change_reloads_once:
  assumes "cd_media_changed s \<noteq> 0"
    and "ctl_ack e (length (cd_log s))"
    and "\<not> read_fault e (length (cd_log s) + 1)"
    and "\<not> read_fault e (length (cd_log s) + 3)"
    and "buf = tabulate 2048 (disc e (CdPosToInt (CdIntToPos (16 + session_offs) loc0)))"
    and "descriptor_id buf = Some (cbytes ''CD001'')"
    and "pathTableSize_lsb buf = Some sz"
    and "pathTable1Offs buf = Some offs"
    and "0 \<le> sint (push_bit 11 (drop_bit 11 (2047 + sz)))"
  shows "(\<exists>s'. CdReadIsoDescriptor e session_offs s = Some (0, s')
           \<and> cd_media_changed s' = 0
           \<and> cd_log s' = cd_log s @
                [Control CdlSetloc (loc_param (CdIntToPos (16 + session_offs) loc0)), ReadRetry 1,
                 Control CdlSetloc (loc_param (CdIntToPos (sint offs) loc0)),
                 ReadRetry (nat (drop_bit 11 (sint (push_bit 11 (drop_bit 11 (2047 + sz))))))])
       \<and> (\<forall>t o2. cd_media_changed t = 0 \<and> status_after e (length (cd_log t) + 1) AND 0x10 = 0
             \<longrightarrow> CdReadIsoDescriptor e o2 t
                   = Some (0, t\<lparr>cd_log := cd_log t @ [Control CdlNop []]\<rparr>))"
  using descriptor_reload [OF assms] descriptor_cache_hit by blast

text \<open>
  The claim as it was stated fails where the reload cannot be done: with the flag set
  and a drive that refuses the seek, the next call issues no read at all, returns
  \<open>-1\<close> and leaves the flag set, so the call after it tries again.
\<close>

theorem media_change_reloads_once_counterexample:
  "cd_media_changed boot = 1
   \<and> CdReadIsoDescriptor seek_refused_env 0 boot =
       Some (- 1, boot\<lparr>cd_log := [Control CdlSetloc [0x00, 0x02, 0x16]],
                       cd_iso_error := CdlIsoSeekError\<rparr>)"
  by (simp add: CdReadIsoDescriptor_def lid_check_def boot_def CdControl_def pos_defs Let_def
      seek_refused_env_def env_simps)

theorem media_change_reloads_once_witness:
  "cd_media_changed boot \<noteq> 0
   \<and> ctl_ack demo_env (length (cd_log boot))
   \<and> \<not> read_fault demo_env (length (cd_log boot) + 1)
   \<and> \<not> read_fault demo_env (length (cd_log boot) + 3)
   \<and> descriptor_id (tabulate 2048 demo_descriptor) = Some (cbytes ''CD001'')
   \<and> pathTableSize_lsb (tabulate 2048 demo_descriptor) = Some 22
   \<and> pathTable1Offs (tabulate 2048 demo_descriptor) = Some 18
   \<and> (\<exists>s'. CdReadIsoDescriptor demo_env 0 boot = Some (0, s')
         \<and> cd_media_changed s' = 0
         \<and> cd_log s' = [Control CdlSetloc [0x00, 0x02, 0x16], ReadRetry 1,
                        Control CdlSetloc [0x00, 0x02, 0x18], ReadRetry 1])
   \<and> CdReadIsoDescriptor demo_env 0 mounted =
       Some (0, mounted\<lparr>cd_log := cd_log mounted @ [Control CdlNop []]\<rparr>)"
proof -
  have disc16: "tabulate 2048 (disc demo_env (CdPosToInt (CdIntToPos (16 + 0) loc0)))
                = tabulate 2048 demo_descriptor"
    by (simp add: pos_defs env_simps demo_disc_simps)
  have h: "cd_media_changed boot \<noteq> 0" "ctl_ack demo_env (length (cd_log boot))"
    "\<not> read_fault demo_env (length (cd_log boot) + 1)"
    "\<not> read_fault demo_env (length (cd_log boot) + 3)"
    by (simp_all add: boot_def env_simps)
  have size_ok: "0 \<le> sint (push_bit 11 (drop_bit 11 (2047 + (22 :: u32))))"
    by simp
  note inst = media_change_reloads_once [OF h disc16 [symmetric] descr_magic descr_size
      descr_offs size_ok]
  have lid: "status_after demo_env (length (cd_log mounted) + 1) AND 0x10 = 0"
    by (simp add: env_simps)
  from inst have "CdReadIsoDescriptor demo_env 0 mounted =
       Some (0, mounted\<lparr>cd_log := cd_log mounted @ [Control CdlNop []]\<rparr>)"
    using lid mounted_fields(1) by blast
  moreover from inst have "\<exists>s'. CdReadIsoDescriptor demo_env 0 boot = Some (0, s')
         \<and> cd_media_changed s' = 0
         \<and> cd_log s' = [Control CdlSetloc [0x00, 0x02, 0x16], ReadRetry 1,
                        Control CdlSetloc [0x00, 0x02, 0x18], ReadRetry 1]"
    by (simp add: pos_defs boot_def)
  ultimately show ?thesis
    using h descr_magic descr_size descr_offs by simp
qed

text \<open>
  C5, as the code has it. When \<^verbatim>\<open>_CdReadIsoDescriptor\<close> runs with the
  media-changed flag clear while the lid is open (the shell-open bit is set after each
  of the two no-ops), it returns \<open>-1\<close> with the error code \<^verbatim>\<open>CdlIsoLidOpen\<close> and
  leaves the descriptor buffer, the path table buffer and the directory cache as they
  were. The lid check belongs to the flag-clear case only: with the flag set no no-op
  is issued and the reload starts at once.
\<close>

theorem lid_open_with_flag_clear:
  assumes "cd_media_changed s = 0"
    and "status_after e (length (cd_log s) + 1) AND 0x10 \<noteq> 0"
    and "status_after e (length (cd_log s) + 2) AND 0x10 \<noteq> 0"
  shows "CdReadIsoDescriptor e session_offs s =
           Some (- 1, s\<lparr>cd_log := cd_log s @ [Control CdlNop [], Control CdlNop []],
                         cd_iso_error := CdlIsoLidOpen\<rparr>)
       \<and> (\<forall>t. cd_media_changed t \<noteq> 0 \<longrightarrow> lid_check e t = (False, t))"
  using assms
  by (simp add: CdReadIsoDescriptor_def lid_check_def CdControl_def CdStatus_def Let_def)

text \<open>
  The claim as it was stated fails with the flag set: at start-up, with the lid open
  (the bit would persist across any two no-ops), the call issues no no-op, goes on to
  seek and read, and fails with \<^verbatim>\<open>CdlIsoReadError\<close>, not \<^verbatim>\<open>CdlIsoLidOpen\<close>; the
  descriptor buffer holds what the failed read left.
\<close>

theorem lid_open_with_flag_clear_counterexample:
  "cd_media_changed boot = 1
   \<and> status_after lid_open_env 1 AND 0x10 \<noteq> 0
   \<and> status_after lid_open_env 2 AND 0x10 \<noteq> 0
   \<and> CdReadIsoDescriptor lid_open_env 0 boot =
       Some (- 1, boot\<lparr>cd_iso_descriptor_buff := tabulate 2048 (junk lid_open_env 1),
                       cd_log := [Control CdlSetloc [0x00, 0x02, 0x16], ReadRetry 1],
                       cd_head := 16, cd_read_result := - 1,
                       cd_iso_error := CdlIsoReadError\<rparr>)"
  by (simp add: CdReadIsoDescriptor_def lid_check_def boot_def io_defs pos_defs Let_def
      lid_open_env_def env_simps)

theorem lid_open_with_flag_clear_witness:
  "cd_media_changed mounted = 0
   \<and> status_after lid_open_env (length (cd_log mounted) + 1) AND 0x10 \<noteq> 0
   \<and> status_after lid_open_env (length (cd_log mounted) + 2) AND 0x10 \<noteq> 0
   \<and> CdReadIsoDescriptor lid_open_env 0 mounted =
       Some (- 1, mounted\<lparr>cd_log := cd_log mounted @ [Control CdlNop [], Control CdlNop []],
                          cd_iso_error := CdlIsoLidOpen\<rparr>)"
proof -
  have h: "cd_media_changed mounted = 0"
    "status_after lid_open_env (length (cd_log mounted) + 1) AND 0x10 \<noteq> 0"
    "status_after lid_open_env (length (cd_log mounted) + 2) AND 0x10 \<noteq> 0"
    by (simp_all add: mounted_fields lid_open_env_def env_simps)
  from lid_open_with_flag_clear [OF h, of 0] h show ?thesis
    by blast
qed

section \<open>Path table\<close>

lemma length_pathtable_record:
  "length (pathtable_record r) = 8 + 2 * ((length (fst r) + 1) div 2)"
  by (auto simp: pathtable_record_def le32_def le16_def elim!: evenE oddE)

lemma hd_pathtable_record: "pathtable_record r ! 0 = of_nat (length (fst r))"
  by (simp add: pathtable_record_def)

text \<open>
  The loop over a well-formed table: from the start of any record on, with a
  non-positive entry number, it walks to the end and returns the count it has reached
  plus one.
\<close>

lemma get_pathtable_entry_loop_count:
  assumes "list_all (\<lambda>r. length (fst r) < 256) es" and "entry \<le> 0" and "0 \<le> i"
  shows "get_pathtable_entry_loop (pre @ pathtable_bytes es @ post)
           (length pre + length (pathtable_bytes es)) entry want_tbl want_name (length pre) i =
         Some (i + int (length es) + 1, None, None)"
  using assms
proof (induction es arbitrary: pre i)
  case Nil
  then show ?case
    by (simp add: get_pathtable_entry_loop.simps pathtable_bytes_def)
next
  case (Cons r es)
  let ?rec = "pathtable_record r"
  let ?buf = "pre @ pathtable_bytes (r # es) @ post"
  have bytes: "pathtable_bytes (r # es) = ?rec @ pathtable_bytes es"
    by (simp add: pathtable_bytes_def)
  have len: "length ?rec = 8 + 2 * ((length (fst r) + 1) div 2)"
    by (rule length_pathtable_record)
  have small: "length (fst r) < 256"
    using Cons.prems(1) by simp
  have first: "rd8 ?buf (length pre) = Some (of_nat (length (fst r)))"
    using len by (simp add: rd8_def bytes nth_append hd_pathtable_record)
  have un: "unat (of_nat (length (fst r)) :: u8) = length (fst r)"
    using small by (simp add: unat_of_nat)
  have ne: "i \<noteq> entry - 1"
    using Cons.prems(2,3) by simp
  have lt: "length pre < length pre + length (pathtable_bytes (r # es))"
    using len by (simp add: bytes)
  have step: "get_pathtable_entry_loop ?buf (length pre + length (pathtable_bytes (r # es)))
                entry want_tbl want_name (length pre) i =
              get_pathtable_entry_loop ((pre @ ?rec) @ pathtable_bytes es @ post)
                (length (pre @ ?rec) + length (pathtable_bytes es))
                entry want_tbl want_name (length (pre @ ?rec)) (i + 1)"
    using lt ne first un len
    by (subst get_pathtable_entry_loop.simps)
       (simp add: bytes sizeof_ISO_PATHTABLE_ENTRY_def add.assoc)
  have "list_all (\<lambda>r. length (fst r) < 256) es" "0 \<le> i + 1"
    using Cons.prems by simp_all
  from Cons.IH [OF this(1) Cons.prems(2) this(2), of "pre @ ?rec"] step
  show ?case by simp
qed

text \<open>
  C7, as the code has it. With entry number 0, or any non-positive entry number, and
  null output buffers, \<^verbatim>\<open>get_pathtable_entry\<close> scans the cached path table without
  copying anything and returns the number of its entries plus one (the bound the
  callers' loops \<^verbatim>\<open>for(i=1; i<num_dirs; i++)\<close> need to reach the last entry). The
  table holds the records of the directories \<open>es\<close>, whose names fit the one-byte
  length field, and the descriptor gives their length in bytes.
\<close>

theorem get_pathtable_entry_count:
  assumes "list_all (\<lambda>r. length (fst r) < 256) es"
    and "entry \<le> 0"
    and "cd_iso_pathtable_buff s = Some (pathtable_bytes es @ padding)"
    and "pathTableSize_lsb (cd_iso_descriptor_buff s) = Some sz"
    and "unat sz = length (pathtable_bytes es)"
  shows "get_pathtable_entry s entry False False = Some (int (length es) + 1, None, None)"
  using get_pathtable_entry_loop_count [OF assms(1,2), of 0 "[]" padding False False] assms(3,4,5)
  by (simp add: get_pathtable_entry_def deref_def)

lemma mounted_pathtable:
  "cd_iso_pathtable_buff mounted = Some (pathtable_bytes demo_entries @ replicate 2026 0)"
proof -
  have "length (pathtable_bytes demo_entries) = 22"
    by (simp add: img_defs)
  then show ?thesis
    using tabulate_put_blank [of "pathtable_bytes demo_entries" 2048]
    by (simp add: mounted_fields demo_pathtable_def)
qed

text \<open>
  The claim as it was stated fails on the disc above: its path table has two entries,
  the root and DATA, and the call returns 3.
\<close>

theorem get_pathtable_entry_count_counterexample:
  "length demo_entries = 2
   \<and> cd_iso_pathtable_buff mounted = Some (pathtable_bytes demo_entries @ replicate 2026 0)
   \<and> get_pathtable_entry mounted 0 False False = Some (3, None, None)"
  by (simp add: mounted_pathtable [symmetric] gpe_demo_count demo_tables_mounted)
     (simp add: demo_entries_def)

theorem get_pathtable_entry_count_witness:
  "list_all (\<lambda>r. length (fst r) < 256) demo_entries
   \<and> (0 :: int) \<le> 0
   \<and> cd_iso_pathtable_buff mounted = Some (pathtable_bytes demo_entries @ replicate 2026 0)
   \<and> pathTableSize_lsb (cd_iso_descriptor_buff mounted) = Some 22
   \<and> unat (22 :: u32) = length (pathtable_bytes demo_entries)
   \<and> get_pathtable_entry mounted 0 False False = Some (int (length demo_entries) + 1, None, None)"
proof -
  have h1: "list_all (\<lambda>r. length (fst r) < 256) demo_entries"
    by (simp add: demo_entries_def cbytes_def)
  have h2: "(0 :: int) \<le> 0"
    by simp
  have h4: "pathTableSize_lsb (cd_iso_descriptor_buff mounted) = Some 22"
    by (simp add: mounted_fields descr_size)
  have h5: "unat (22 :: u32) = length (pathtable_bytes demo_entries)"
    by (simp add: img_defs)
  from get_pathtable_entry_count [OF h1 h2 mounted_pathtable h4 h5] h1 h2 mounted_pathtable h4 h5
  show ?thesis
    by blast
qed

section \<open>Session loader\<close>

lemma scan_callback_caches: "caches (scan_callback e ev s) = caches s"
  by (simp add: scan_callback_def caches_def CdControl_def Let_def)

lemma scan_wait_caches: "scan_wait e evs s = Some s' \<Longrightarrow> caches s' = caches s"
proof (induction evs arbitrary: s)
  case Nil
  then show ?case by (simp split: if_splits)
next
  case (Cons ev evs)
  show ?case
  proof (cases "ses_scancomplete s = 0")
    case True
    with Cons.prems have "scan_wait e evs (scan_callback e ev s) = Some s'"
      by simp
    from Cons.IH [OF this] show ?thesis
      by (simp add: scan_callback_caches)
  next
    case False
    with Cons.prems show ?thesis by simp
  qed
qed

lemma scan_callback_no_magic:
  assumes "no_magic ev" and "ses_scanfound s = 0"
  shows "ses_scanfound (scan_callback e ev s) = 0"
    and "ses_scancount (scan_callback e ev s) = ses_scancount s + 1"
    and "ses_scancomplete (scan_callback e ev s) =
           (if 512 \<le> ses_scancount s + 1 then 1 else ses_scancomplete s)"
  using assms by (auto simp: scan_callback_def no_magic_def CdControl_def Let_def)

lemma scan_wait_done: "ses_scancomplete s \<noteq> 0 \<Longrightarrow> scan_wait e evs s = Some s"
  by (cases evs) simp_all

text \<open>
  The scan gives up: when the next \<open>n\<close> interrupts bring sectors without the magic
  and the \<open>n\<close>-th of them takes the counter to 512, the wait ends with nothing found.
\<close>

lemma scan_wait_gives_up:
  assumes "ses_scancomplete s = 0" and "ses_scanfound s = 0"
    and "ses_scancount s + int n = 512" and "0 < n" and "n \<le> length evs"
    and "list_all no_magic (take n evs)"
  shows "\<exists>s'. scan_wait e evs s = Some s' \<and> ses_scanfound s' = 0"
  using assms
proof (induction evs arbitrary: s n)
  case Nil
  then show ?case by simp
next
  case (Cons ev evs)
  from \<open>0 < n\<close> obtain m where n: "n = Suc m"
    using gr0_implies_Suc by blast
  from Cons.prems(6) have ev: "no_magic ev" and rest: "list_all no_magic (take m evs)"
    by (simp_all add: n)
  let ?s1 = "scan_callback e ev s"
  note cb = scan_callback_no_magic [OF ev Cons.prems(2), of e]
  have step: "scan_wait e (ev # evs) s = scan_wait e evs ?s1"
    using Cons.prems(1) by simp
  show ?case
  proof (cases "m = 0")
    case True
    then have "512 \<le> ses_scancount s + 1"
      using Cons.prems(3) n by simp
    then have "ses_scancomplete ?s1 \<noteq> 0"
      by (simp add: cb)
    then have "scan_wait e evs ?s1 = Some ?s1"
      by (rule scan_wait_done)
    then show ?thesis
      using step cb(1) by simp
  next
    case False
    then have "\<not> 512 \<le> ses_scancount s + 1"
      using Cons.prems(3) n by simp
    then have "ses_scancomplete ?s1 = 0"
      using Cons.prems(1) by (simp add: cb)
    moreover have "ses_scancount ?s1 + int m = 512"
      using Cons.prems(3) n by (simp add: cb)
    moreover have "0 < m" "m \<le> length evs"
      using False Cons.prems(5) n by simp_all
    ultimately obtain s' where "scan_wait e evs ?s1 = Some s'" "ses_scanfound s' = 0"
      using Cons.IH [of ?s1 m] cb(1) rest by blast
    then show ?thesis
      using step by simp
  qed
qed

text \<open>
  C9. When the session seek does not end in a disk error and the scan of
  \<^verbatim>\<open>CdLoadSession\<close> examines 512 sectors none of which has the volume descriptor
  magic, the function returns \<open>-1\<close> with the error code \<^verbatim>\<open>CdlIsoInvalidFs\<close>, and the
  cached volume descriptor, path table and directory record (with its length and
  marker) are exactly what they were before the call.
\<close>

theorem CdLoadSession_no_descriptor:
  assumes "sync_result e (length (cd_log s) + 1) \<noteq> CdlDiskError"
    and "evs = ready_events e (length (cd_log s) + 3)"
    and "512 \<le> length evs"
    and "list_all no_magic (take 512 evs)"
  shows "\<exists>s'. CdLoadSession e session s = Some (- 1, s')
           \<and> cd_iso_error s' = CdlIsoInvalidFs \<and> caches s' = caches s"
proof -
  let ?s1 = "snd (CdControl e CdlSetsession [word_of_int session] s)"
  let ?s2 = "snd (CdReadyCallback CbScan ?s1)"
  let ?s3 = "?s2\<lparr>ses_scanfound := 0, ses_scancount := 0, ses_scancomplete := 0,
                  ses_scanbuff := malloc_bytes e ?s2 2048\<rparr>"
  let ?s4 = "snd (CdControl e CdlSetmode [0x80] ?s3)"
  let ?s5 = "snd (CdControl e CdlReadN [] ?s4)"
  have len: "length (cd_log ?s5) = length (cd_log s) + 3"
    by (simp add: CdControl_def CdReadyCallback_def Let_def)
  have c5: "caches ?s5 = caches s"
    by (simp add: caches_def CdControl_def CdReadyCallback_def Let_def)
  have init: "ses_scancomplete ?s5 = 0" "ses_scanfound ?s5 = 0" "ses_scancount ?s5 = 0"
    by (simp_all add: CdControl_def CdReadyCallback_def Let_def)
  obtain s6 where s6: "scan_wait e evs ?s5 = Some s6" "ses_scanfound s6 = 0"
    using scan_wait_gives_up [of ?s5 512 evs e] init assms(3,4) by auto
  have c6: "caches s6 = caches s"
    using scan_wait_caches [OF s6(1)] c5 by simp
  have sync: "CdSync e ?s1 \<noteq> CdlDiskError"
    using assms(1) by (simp add: CdSync_def CdControl_def Let_def)
  let ?s' = "snd (CdReadyCallback (fst (CdReadyCallback CbScan ?s1))
                 ((snd (CdReadyCallback CbNull s6))\<lparr>cd_iso_error := CdlIsoInvalidFs\<rparr>))"
  have "CdLoadSession e session s = Some (- 1, ?s')"
    using sync s6 assms(2) len
    by (simp add: CdLoadSession_def Let_def split_beta CdReadyCallback_def)
  moreover have "cd_iso_error ?s' = CdlIsoInvalidFs"
    by (simp add: CdReadyCallback_def)
  moreover have "caches ?s' = caches s"
    using c6 by (simp add: caches_def CdReadyCallback_def)
  ultimately show ?thesis
    by blast
qed

theorem CdLoadSession_no_descriptor_witness:
  "sync_result blank_env (length (cd_log data_cached) + 1) \<noteq> CdlDiskError
   \<and> 512 \<le> length (ready_events blank_env (length (cd_log data_cached) + 3))
   \<and> list_all no_magic (take 512 (ready_events blank_env (length (cd_log data_cached) + 3)))
   \<and> (\<exists>s'. CdLoadSession blank_env 2 data_cached = Some (- 1, s')
         \<and> cd_iso_error s' = CdlIsoInvalidFs \<and> caches s' = caches data_cached)"
proof -
  have h1: "sync_result blank_env (length (cd_log data_cached) + 1) \<noteq> CdlDiskError"
    by (simp add: blank_env_def env_simps)
  have h3: "512 \<le> length (ready_events blank_env (length (cd_log data_cached) + 3))"
    by (simp add: blank_env_def env_simps blank_sectors_def)
  have "no_magic (CdlDataReady, blank)"
    by (simp add: no_magic_def rd8_tabulate blank_def)
  then have h4: "list_all no_magic
                   (take 512 (ready_events blank_env (length (cd_log data_cached) + 3)))"
    by (simp add: blank_env_def env_simps blank_sectors_def list_all_iff)
  from CdLoadSession_no_descriptor [OF h1 refl h3 h4, of 2] h1 h3 h4 show ?thesis
    by blast
qed

end
